theory Spec2Isabelle
  imports Complex_Main
begin

section \<open>JavaScript object literals\<close>

text \<open>
  The source reads object literals with \<^verbatim>\<open>obj[key]\<close>.  Such a read finds the
  object's own property first and, failing that, a property inherited from
  \<^verbatim>\<open>Object.prototype\<close>.  The result of a read is therefore one of three things:
  an own value, an inherited value (always a function or an object, hence truthy),
  or \<^verbatim>\<open>undefined\<close>.
\<close>

datatype 'a property = Own 'a | Inherited string | Undefined

definition objectPrototypeNames :: "string list" where
  "objectPrototypeNames =
     [''constructor'', ''hasOwnProperty'', ''isPrototypeOf'', ''propertyIsEnumerable'',
      ''toLocaleString'', ''toString'', ''valueOf'', ''__proto__'',
      ''__defineGetter__'', ''__defineSetter__'', ''__lookupGetter__'', ''__lookupSetter__'']"

text \<open>An object literal lists its properties in order; a later duplicate key wins.\<close>

definition literal :: "(string \<times> 'a) list \<Rightarrow> (string \<rightharpoonup> 'a)" where
  "literal kvs = map_of (rev kvs)"

definition js_get :: "(string \<rightharpoonup> 'a) \<Rightarrow> string \<Rightarrow> 'a property" where
  "js_get obj k =
     (case obj k of
        Some v \<Rightarrow> Own v
      | None \<Rightarrow> if k \<in> set objectPrototypeNames then Inherited k else Undefined)"

text \<open>
  A value that is either a string of the program or a value inherited from
  \<^verbatim>\<open>Object.prototype\<close> (named by its property).
\<close>

datatype jsval = Str string | Proto string

text \<open>\<^verbatim>\<open>Array.prototype.indexOf\<close>: the first index holding the element, or \<open>-1\<close>.\<close>

fun indexOf_from :: "'a list \<Rightarrow> 'a \<Rightarrow> int \<Rightarrow> int" where
  "indexOf_from [] x i = - 1"
| "indexOf_from (y # ys) x i = (if y = x then i else indexOf_from ys x (i + 1))"

definition indexOf :: "'a list \<Rightarrow> 'a \<Rightarrow> int" where
  "indexOf xs x = indexOf_from xs x 0"


section \<open>StudyFlowManager: data\<close>

text \<open>
  Form data and the participant record hold strings, booleans and arrays of strings.
  The properties the code reads from these objects (\<^verbatim>\<open>timestamp\<close>, \<^verbatim>\<open>completed\<close>,
  \<^verbatim>\<open>ageGroup\<close>, \<^verbatim>\<open>gender\<close>, \<^verbatim>\<open>digitalHealthExperience\<close>) are not names of
  \<^verbatim>\<open>Object.prototype\<close>, so a read of them is a plain lookup of the own properties.
\<close>

datatype jv = JStr string | JBool bool | JArr "string list"

fun truthy :: "jv option \<Rightarrow> bool" where
  "truthy None = False"
| "truthy (Some (JStr s)) = (s \<noteq> [])"
| "truthy (Some (JBool b)) = b"
| "truthy (Some (JArr xs)) = True"

type_synonym jsobject = "string \<rightharpoonup> jv"

record participant_data =
  sessionId :: string
  startTime :: string
  endTime :: "string option"
  participantInfo :: jsobject
  consentData :: jsobject
  therapyData :: jsobject
  questionnaireData :: jsobject
  completed :: bool

text \<open>
  Messages of \<^verbatim>\<open>showAlert\<close>.  The texts are bilingual; the model names them by
  their meaning and keeps the alert's type string.
\<close>

datatype alert_message =
    CompleteStepsInOrder
  | AgreeToAllTerms
  | DataSubmittedSecurely
  | ServerUnavailable

datatype task = SubmitDataToServer | RemoveAlert

text \<open>
  The state the manager reads and writes: its two fields, the two \<^verbatim>\<open>localStorage\<close>
  entries (\<^verbatim>\<open>qmul_study_step\<close> and \<^verbatim>\<open>qmul_participant_data\<close>; the JSON text of the
  latter is represented by the record it encodes), the address of the page, the alerts
  shown, and the callbacks registered with \<^verbatim>\<open>setTimeout\<close> (delay in milliseconds).
\<close>

record study_flow =
  currentStep :: string
  participantData :: participant_data
  storedStep :: "string option"
  storedData :: "participant_data option"
  href :: jsval
  alerts :: "(alert_message \<times> string) list"
  timeouts :: "(nat \<times> task) list"


section \<open>StudyFlowManager: step management and flow control\<close>

definition getCurrentStep :: "string option \<Rightarrow> string" where
  "getCurrentStep stored = (case stored of Some s \<Rightarrow> (if s \<noteq> [] then s else ''portal'') | None \<Rightarrow> ''portal'')"

definition setCurrentStep :: "string \<Rightarrow> study_flow \<Rightarrow> study_flow" where
  "setCurrentStep step st = st\<lparr>currentStep := step, storedStep := Some step\<rparr>"

definition saveParticipantData :: "study_flow \<Rightarrow> study_flow" where
  "saveParticipantData st = st\<lparr>storedData := Some (participantData st)\<rparr>"

definition showAlert :: "alert_message \<Rightarrow> string \<Rightarrow> study_flow \<Rightarrow> study_flow" where
  "showAlert message type st =
     st\<lparr>alerts := alerts st @ [(message, type)], timeouts := timeouts st @ [(5000, RemoveAlert)]\<rparr>"

definition stepOrder :: "string list" where
  "stepOrder = [''portal'', ''participant_info'', ''consent_form'', ''therapy'', ''questionnaire'', ''thank_you'']"

definition canProceedToStep :: "study_flow \<Rightarrow> string \<Rightarrow> bool" where
  "canProceedToStep st targetStep =
     (let currentIndex = indexOf stepOrder (currentStep st);
          targetIndex = indexOf stepOrder targetStep
      in targetIndex \<le> currentIndex + 1)"

definition pageMap :: "string \<rightharpoonup> string" where
  "pageMap = literal
     [(''portal'', ''experiment_portal.html''),
      (''participant_info'', ''participant_info.html''),
      (''consent_form'', ''consent_form.html''),
      (''therapy'', ''therapy_interface_bilingual.html?from=experiment''),
      (''questionnaire'', ''questionnaire.html''),
      (''thank_you'', ''thank_you.html'')]"

definition navigateToPage :: "string \<Rightarrow> study_flow \<Rightarrow> study_flow" where
  "navigateToPage step st =
     (case js_get pageMap step of
        Own page \<Rightarrow> if page \<noteq> [] then st\<lparr>href := Str page\<rparr> else st
      | Inherited n \<Rightarrow> st\<lparr>href := Proto n\<rparr>
      | Undefined \<Rightarrow> st)"

definition proceedToStep :: "string \<Rightarrow> study_flow \<Rightarrow> bool \<times> study_flow" where
  "proceedToStep targetStep st =
     (if \<not> canProceedToStep st targetStep
      then (False, showAlert CompleteStepsInOrder ''warning'' st)
      else (True, navigateToPage targetStep (setCurrentStep targetStep st)))"

definition stepMap :: "string \<rightharpoonup> string" where
  "stepMap = literal
     [(''participant_info'', ''consent_form''),
      (''consent'', ''therapy''),
      (''questionnaire'', ''thank_you'')]"

definition getNextStep :: "string \<Rightarrow> string property" where
  "getNextStep formType = js_get stepMap formType"

text \<open>
  \<^verbatim>\<open>integrateWithTherapySystem\<close>, called by the therapy page when the session is over;
  \<open>now\<close> is the reading of the clock.
\<close>

definition integrateWithTherapySystem :: "string \<Rightarrow> study_flow \<Rightarrow> study_flow" where
  "integrateWithTherapySystem now st =
     (let pd = participantData st;
          st1 = st\<lparr>participantData := pd\<lparr>therapyData :=
                   [''completed'' \<mapsto> JBool True, ''timestamp'' \<mapsto> JStr now,
                    ''sessionId'' \<mapsto> JStr (sessionId pd)]\<rparr>\<rparr>
      in setCurrentStep ''questionnaire'' (saveParticipantData st1))"


section \<open>StudyFlowManager: forms\<close>

text \<open>
  The part of the page the form handling reads and writes.  A field value is a list of
  UTF-16 code units; \<^verbatim>\<open>String.prototype.trim\<close> strips white space and line
  terminators from both ends.  A consent checkbox may sit inside an element of class
  \<^verbatim>\<open>checkbox-item\<close>, whose class \<^verbatim>\<open>checked\<close> the code toggles.
\<close>

definition isWhiteSpace :: "nat \<Rightarrow> bool" where
  "isWhiteSpace c =
     (c \<in> {9, 10, 11, 12, 13, 32, 160, 5760, 8232, 8233, 8239, 8287, 12288, 65279}
      \<or> (8192 \<le> c \<and> c \<le> 8202))"

definition trim :: "nat list \<Rightarrow> nat list" where
  "trim s = rev (dropWhile isWhiteSpace (rev (dropWhile isWhiteSpace s)))"

record form_field =
  fieldValue :: "nat list"
  fieldError :: bool

record checkbox =
  checked :: bool
  checkboxItem :: "bool option"

record form =
  studyForm :: string
  requiredFields :: "form_field list"
  formCheckboxes :: "checkbox list"

record consent_page =
  pageCheckboxes :: "checkbox list"
  consentSubmitDisabled :: "bool option"

definition highlightError :: "form_field \<Rightarrow> form_field" where
  "highlightError fld = fld\<lparr>fieldError := True\<rparr>"

definition clearError :: "form_field \<Rightarrow> form_field" where
  "clearError fld = fld\<lparr>fieldError := False\<rparr>"

definition validateForm :: "form \<Rightarrow> study_flow \<Rightarrow> bool \<times> form \<times> study_flow" where
  "validateForm frm st =
     (let isValid = list_all (\<lambda>fld. trim (fieldValue fld) \<noteq> []) (requiredFields frm);
          frm1 = frm\<lparr>requiredFields :=
                   map (\<lambda>fld. if trim (fieldValue fld) = [] then highlightError fld else clearError fld)
                     (requiredFields frm)\<rparr>
      in if studyForm frm = ''consent''
         then (let allChecked = list_all checked (formCheckboxes frm)
               in if \<not> allChecked
                  then (False, frm1, showAlert AgreeToAllTerms ''warning'' st)
                  else (isValid, frm1, st))
         else (isValid, frm1, st))"

definition updateConsentStatus :: "consent_page \<Rightarrow> consent_page" where
  "updateConsentStatus pg =
     (let allChecked = list_all checked (pageCheckboxes pg)
      in pg\<lparr>consentSubmitDisabled := map_option (\<lambda>_. \<not> allChecked) (consentSubmitDisabled pg),
            pageCheckboxes :=
              map (\<lambda>cb. cb\<lparr>checkboxItem := map_option (\<lambda>_. checked cb) (checkboxItem cb)\<rparr>)
                (pageCheckboxes pg)\<rparr>)"

text \<open>
  \<^verbatim>\<open>saveFormData\<close>; \<open>t1\<close> and \<open>t2\<close> are the readings of the clock at the first and
  the second \<^verbatim>\<open>new Date()\<close> of the branch taken.
\<close>

definition saveFormData :: "string \<Rightarrow> jsobject \<Rightarrow> string \<Rightarrow> string \<Rightarrow> study_flow \<Rightarrow> study_flow" where
  "saveFormData formType formData t1 t2 st =
     (let pd = participantData st;
          st1 =
            (if formType = ''participant_info''
             then st\<lparr>participantData := pd\<lparr>participantInfo := formData\<rparr>\<rparr>
             else if formType = ''consent''
             then st\<lparr>participantData := pd\<lparr>consentData := formData(''timestamp'' \<mapsto> JStr t1)\<rparr>\<rparr>
             else if formType = ''questionnaire''
             then st\<lparr>participantData :=
                       pd\<lparr>questionnaireData := formData(''timestamp'' \<mapsto> JStr t1),
                          completed := True, endTime := Some t2\<rparr>,
                     timeouts := timeouts st @ [(1000, SubmitDataToServer)]\<rparr>
             else st)
      in saveParticipantData st1)"

text \<open>
  \<^verbatim>\<open>handleFormSubmission\<close>, given the data \<^verbatim>\<open>collectFormData\<close> read from the form.
  When the form type names a property of \<^verbatim>\<open>Object.prototype\<close> the successor read
  from the step map is a function, not a step name; the model does not follow the
  call of \<^verbatim>\<open>proceedToStep\<close> with it and returns \<open>None\<close> there.
\<close>

definition handleFormSubmission ::
  "form \<Rightarrow> jsobject \<Rightarrow> string \<Rightarrow> string \<Rightarrow> study_flow \<Rightarrow> (form \<times> study_flow) option" where
  "handleFormSubmission frm formData t1 t2 st =
     (let formType = studyForm frm;
          (isValid, frm1, st1) = validateForm frm st
      in if \<not> isValid then Some (frm1, st1)
         else (let st2 = saveFormData formType formData t1 t2 st1
               in case getNextStep formType of
                    Own nextStep \<Rightarrow>
                      if nextStep \<noteq> [] then Some (frm1, snd (proceedToStep nextStep st2))
                      else Some (frm1, st2)
                  | Inherited n \<Rightarrow> None
                  | Undefined \<Rightarrow> Some (frm1, st2)))"


section \<open>StudyFlowManager: export and submission\<close>

record browser_info =
  userAgent :: string
  language :: string
  platform :: string

record export_data =
  x_sessionId :: string
  x_startTime :: string
  x_endTime :: "string option"
  x_completed :: bool
  x_ageGroup :: "jv option"
  x_gender :: "jv option"
  x_digitalHealthExperience :: "jv option"
  x_consentGiven :: bool
  x_consentTimestamp :: "jv option"
  x_therapyCompleted :: bool
  x_therapyTimestamp :: "jv option"
  x_questionnaireData :: jsobject
  x_studyVersion :: string
  x_browserInfo :: browser_info

definition prepareExportData :: "browser_info \<Rightarrow> participant_data \<Rightarrow> export_data" where
  "prepareExportData navigator pd =
     \<lparr>x_sessionId = sessionId pd,
      x_startTime = startTime pd,
      x_endTime = endTime pd,
      x_completed = completed pd,
      x_ageGroup = participantInfo pd ''ageGroup'',
      x_gender = participantInfo pd ''gender'',
      x_digitalHealthExperience = participantInfo pd ''digitalHealthExperience'',
      x_consentGiven = truthy (consentData pd ''timestamp''),
      x_consentTimestamp = consentData pd ''timestamp'',
      x_therapyCompleted = truthy (therapyData pd ''completed''),
      x_therapyTimestamp = therapyData pd ''timestamp'',
      x_questionnaireData = questionnaireData pd,
      x_studyVersion = ''v1.0'',
      x_browserInfo = navigator\<rparr>"

text \<open>
  The network as \<^verbatim>\<open>submitDataToServer\<close> sees it: the server answers after some
  milliseconds, the connection fails, or nothing ever comes back.  The request is
  aborted by its \<^verbatim>\<open>AbortController\<close> 15000 milliseconds after it was issued, which
  rejects the \<^verbatim>\<open>fetch\<close>.
\<close>

record http_response =
  ok :: bool
  httpStatus :: nat
  bodyIsJson :: bool

datatype network = Replies nat http_response | Fails nat | Silent

datatype fetch_error = AbortError | NetworkError

datatype fetch_result = Resolved http_response | Rejected fetch_error

definition fetchWithAbort :: "nat \<Rightarrow> network \<Rightarrow> fetch_result" where
  "fetchWithAbort limit net =
     (case net of
        Replies ms r \<Rightarrow> if ms < limit then Resolved r else Rejected AbortError
      | Fails ms \<Rightarrow> if ms < limit then Rejected NetworkError else Rejected AbortError
      | Silent \<Rightarrow> Rejected AbortError)"

record request =
  url :: string
  httpMethod :: string
  body :: export_data

text \<open>
  \<^verbatim>\<open>submitDataToServer\<close> returns the request it issued, its boolean result and the
  state it leaves; \<open>apiBase\<close> is the constant \<^verbatim>\<open>API_BASE\<close> of the page's
  configuration.
\<close>

definition submitDataToServer ::
  "string \<Rightarrow> browser_info \<Rightarrow> network \<Rightarrow> study_flow \<Rightarrow> request \<times> bool \<times> study_flow" where
  "submitDataToServer apiBase navigator net st =
     (let exportData = prepareExportData navigator (participantData st);
          apiUrl = apiBase @ ''/submit'';
          req = \<lparr>url = apiUrl, httpMethod = ''POST'', body = exportData\<rparr>
      in case fetchWithAbort 15000 net of
           Resolved response \<Rightarrow>
             if \<not> ok response then (req, False, showAlert ServerUnavailable ''warning'' st)
             else if \<not> bodyIsJson response then (req, False, showAlert ServerUnavailable ''warning'' st)
             else (req, True, showAlert DataSubmittedSecurely ''success'' st)
         | Rejected e \<Rightarrow> (req, False, showAlert ServerUnavailable ''warning'' st))"


text \<open>
  The manager as its constructor leaves it when \<^verbatim>\<open>localStorage\<close> is empty;
  \<open>sid\<close> is the generated session id and \<open>now\<close> the reading of the clock.
\<close>

definition newParticipantData :: "string \<Rightarrow> string \<Rightarrow> participant_data" where
  "newParticipantData sid now =
     \<lparr>sessionId = sid, startTime = now, endTime = None, participantInfo = Map.empty,
      consentData = Map.empty, therapyData = Map.empty, questionnaireData = Map.empty,
      completed = False\<rparr>"

definition loadParticipantData :: "participant_data option \<Rightarrow> string \<Rightarrow> string \<Rightarrow> participant_data" where
  "loadParticipantData stored sid now =
     (case stored of Some d \<Rightarrow> d | None \<Rightarrow> newParticipantData sid now)"

definition newStudyFlow ::
  "string option \<Rightarrow> participant_data option \<Rightarrow> string \<Rightarrow> string \<Rightarrow> jsval \<Rightarrow> study_flow" where
  "newStudyFlow step stored sid now page =
     \<lparr>currentStep = getCurrentStep step,
      participantData = loadParticipantData stored sid now,
      storedStep = step, storedData = stored, href = page, alerts = [], timeouts = []\<rparr>"


section \<open>The mock backend\<close>

text \<open>
  \<^verbatim>\<open>mockApi\<close> keeps one object \<^verbatim>\<open>{step: n}\<close> per session in \<^verbatim>\<open>_mockDatabase\<close>, an
  object literal keyed by session id; the model keeps the step of each own property.
  \<open>now\<close> is the value of \<^verbatim>\<open>Date.now()\<close>, written in decimal into the session id.
  A reply names its status, its message and the keys of its result.  Reading the
  database at a name inherited from \<^verbatim>\<open>Object.prototype\<close> yields a truthy value whose
  \<^verbatim>\<open>step\<close> becomes \<^verbatim>\<open>NaN\<close>, so that the switch takes its default branch; no
  session is touched.
\<close>

definition digit :: "nat \<Rightarrow> char" where
  "digit d = char_of (48 + d)"

fun decimal :: "nat \<Rightarrow> string" where
  "decimal n = (if n < 10 then [digit n] else decimal (n div 10) @ [digit (n mod 10)])"

declare decimal.simps [simp del]

record api_response =
  apiStatus :: string
  apiMessage :: "string option"
  apiResult :: "string list option"

type_synonym mock_database = "string \<rightharpoonup> nat"

definition create_session :: "nat \<Rightarrow> mock_database \<Rightarrow> string \<times> mock_database" where
  "create_session now db =
     (let sid = ''mock-session-'' @ decimal now
      in (sid, db(sid \<mapsto> 0)))"

definition stepResponse :: "nat \<Rightarrow> api_response" where
  "stepResponse step =
     (if step = 1 then
        \<lparr>apiStatus = ''AC_COMPLETE'', apiMessage = None, apiResult = Some [''analysisResult'']\<rparr>
      else if step = 2 then
        \<lparr>apiStatus = ''KG_COMPLETE'', apiMessage = None,
         apiResult = Some [''analysisResult'', ''kgResult'']\<rparr>
      else if step = 3 then
        \<lparr>apiStatus = ''ISO_PRINCIPLE_READY'', apiMessage = None,
         apiResult = Some [''analysisResult'', ''kgResult'', ''isoPrinciple'']\<rparr>
      else if step = 4 then
        \<lparr>apiStatus = ''VIDEO_READY'', apiMessage = None,
         apiResult = Some [''analysisResult'', ''kgResult'', ''isoPrinciple'', ''video'']\<rparr>
      else \<lparr>apiStatus = ''PENDING'', apiMessage = None, apiResult = Some []\<rparr>)"

definition session_status :: "string \<Rightarrow> mock_database \<Rightarrow> api_response \<times> mock_database" where
  "session_status sid db =
     (case js_get db sid of
        Undefined \<Rightarrow>
          (\<lparr>apiStatus = ''ERROR'', apiMessage = Some ''Session not found'', apiResult = None\<rparr>, db)
      | Inherited n \<Rightarrow>
          (\<lparr>apiStatus = ''PENDING'', apiMessage = None, apiResult = Some []\<rparr>, db)
      | Own step \<Rightarrow> (stepResponse (step + 1), db(sid \<mapsto> step + 1)))"

datatype api_call = CreateSession nat | SessionStatus string

fun statusesFor :: "string \<Rightarrow> api_call list \<Rightarrow> mock_database \<Rightarrow> string list" where
  "statusesFor sid [] db = []"
| "statusesFor sid (CreateSession now # calls) db = statusesFor sid calls (snd (create_session now db))"
| "statusesFor sid (SessionStatus i # calls) db =
     (let (response, db1) = session_status i db
      in (if i = sid then [apiStatus response] else []) @ statusesFor sid calls db1)"

text \<open>The status the n-th poll of a session is to receive, in the words of the claim.\<close>

definition nthStatus :: "nat \<Rightarrow> string" where
  "nthStatus n =
     (if n = 1 then ''AC_COMPLETE'' else if n = 2 then ''KG_COMPLETE''
      else if n = 3 then ''ISO_PRINCIPLE_READY'' else if n = 4 then ''VIDEO_READY''
      else ''PENDING'')"


section \<open>The string table\<close>

text \<open>
  The English half of \<^verbatim>\<open>langResources\<close>, entry by entry.  The Chinese half, which
  \<^verbatim>\<open>getText\<close> never reads, is a parameter of the model.
\<close>

definition langResources_en :: "(string \<times> string) list" where
  "langResources_en =
     [(''analyzing'',
       ''Analyzing...''),
      (''startJourney'',
       ''Start Healing Journey''),
      (''input_alert'',
       ''Please enter how you feel!''),
      (''unit_bpm'',
       ''BPM''),
      (''analysis_step1'',
       ''Connecting to emotional neural network...''),
      (''analysis_step2'',
       ''Parsing 27-dimensional emotion vectors...''),
      (''analysis_step3'',
       ''Constructing your emotional profile...''),
      (''stage_emotion_analysis'',
       ''Emotion Decoding''),
      (''comfort_text'',
       ''Don't worry, all of your feelings are valid and deserve to be seen.''),
      (''emotion_name_admiration'',
       ''Admiration''),
      (''emotion_name_adoration'',
       ''Adoration''),
      (''emotion_name_aesthetic_appreciation'',
       ''Aesthetic Appreciation''),
      (''emotion_name_amusement'',
       ''Amusement''),
      (''emotion_name_anger'',
       ''Anger''),
      (''emotion_name_anxiety'',
       ''Anxiety''),
      (''emotion_name_awe'',
       ''Awe''),
      (''emotion_name_embarrassment'',
       ''Embarrassment''),
      (''emotion_name_boredom'',
       ''Boredom''),
      (''emotion_name_calm'',
       ''Calm''),
      (''emotion_name_confusion'',
       ''Confusion''),
      (''emotion_name_contempt'',
       ''Contempt''),
      (''emotion_name_desire'',
       ''Desire''),
      (''emotion_name_disappointment'',
       ''Disappointment''),
      (''emotion_name_disgust'',
       ''Disgust''),
      (''emotion_name_sympathy'',
       ''Sympathy''),
      (''emotion_name_entrancement'',
       ''Entrancement''),
      (''emotion_name_jealousy'',
       ''Jealousy''),
      (''emotion_name_excitement'',
       ''Excitement''),
      (''emotion_name_fear'',
       ''Fear''),
      (''emotion_name_guilt'',
       ''Guilt''),
      (''emotion_name_horror'',
       ''Horror''),
      (''emotion_name_interest'',
       ''Interest''),
      (''emotion_name_joy'',
       ''Joy''),
      (''emotion_name_nostalgia'',
       ''Nostalgia''),
      (''emotion_name_romance'',
       ''Romance''),
      (''emotion_name_sadness'',
       ''Sadness''),
      (''emotion_name_unknown'',
       ''Complex Feelings''),
      (''desc_admiration'',
       ''Your words are filled with admiration. Appreciating the strengths of others can also inspire us to become better.''),
      (''desc_adoration'',
       ''We sense a feeling of adoration, which is a strong and positive connection.''),
      (''desc_aesthetic_appreciation'',
       ''You demonstrate an appreciation for beauty. Feeling and appreciating beauty is a vital healing force in life.''),
      (''desc_amusement'',
       ''Your words are full of amusement and fun; a lighthearted mood is the best medicine for stress.''),
      (''desc_anger'',
       ''We recognize the anger within you. Anger is an emotional alarm, alerting us that something needs attention and understanding.''),
      (''desc_anxiety'',
       ''We have detected your current anxiety. Remember to take a deep breath, focus on the present moment, and know that this too shall pass.''),
      (''desc_awe'',
       ''We've captured a sense of awe. When faced with the vast or magnificent, a feeling of awe naturally arises.''),
      (''desc_embarrassment'',
       ''You seem to be feeling some embarrassment. This is a normal social emotion that helps us better integrate into groups.''),
      (''desc_boredom'',
       ''We've detected a hint of boredom. Perhaps this is a signal prompting you to find new challenges or interests.''),
      (''desc_calm'',
       ''Your inner world appears to be in a state of calm. May you enjoy this tranquility and harmony.''),
      (''desc_confusion'',
       ''Your thoughts seem a bit confused. It's okay; let's find a way through this fog together.''),
      (''desc_contempt'',
       ''We recognize the emotion of contempt, which often stems from complex comparisons and judgments.''),
      (''desc_desire'',
       ''Your words are filled with desire. Desire is our motivation to act, guiding us toward our goals.''),
      (''desc_disappointment'',
       ''We sense your disappointment. It's natural to feel this way when reality doesn't meet expectations.''),
      (''desc_disgust'',
       ''We sense your aversion to something. This is a strong signal that helps us establish our boundaries.''),
      (''desc_sympathy'',
       ''Your words show great sympathy. The ability to empathize with others' feelings is a precious quality.''),
      (''desc_entrancement'',
       ''You seem to be in a state of entrancement; focus is a gateway to the inner world.''),
      (''desc_jealousy'',
       ''We've captured the emotion of jealousy. It often points to what we deeply desire in our hearts.''),
      (''desc_excitement'',
       ''We sense the excitement and thrill within you; anticipating good things is always a pleasure.''),
      (''desc_fear'',
       ''We have detected a sense of fear. Please remember, feeling fear is normal; what matters is how we face it.''),
      (''desc_guilt'',
       ''You seem to be troubled by guilt. Guilt reminds us to pay attention to our actions and gives us an opportunity to grow.''),
      (''desc_horror'',
       ''We have detected an emotion of horror. Please ensure that you are currently in a safe environment.''),
      (''desc_interest'',
       ''We see your interest in things, which is the beginning of exploration and learning.''),
      (''desc_joy'',
       ''We've captured the joy in your heart! May this happiness shine like the sun and brighten your day.''),
      (''desc_nostalgia'',
       ''A feeling of nostalgia has gently surfaced. Memories of the past, whether sweet or bitter, have shaped who we are today.''),
      (''desc_romance'',
       ''A sense of romance permeates your words; it is a profound and beautiful emotional experience.''),
      (''desc_sadness'',
       ''We sense the sadness within you. Please allow yourself to gently experience this emotion; all feelings deserve to be treated with tenderness.''),
      (''stage_gems_mapping'',
       ''Emotion-Music GEMS Mapping''),
      (''stage_kg_extraction'',
       ''Knowledge Graph Extraction''),
      (''prescription_title'',
       ''Your Personal Healing Prescription''),
      (''section_title_params'',
       ''Musical Prescription Parameters''),
      (''section_title_rationale'',
       ''Therapeutic Rationale''),
      (''section_title_practice'',
       ''Guided Listening Practice''),
      (''practice_text_default'',
       ''It is recommended to use headphones and listen in a quiet environment. Try to focus on the flow of the music, and practice diaphragmatic breathing with a 4-second inhale and 6-second exhale.''),
      (''iso_title'',
       ''Applying: ISO Principle''),
      (''iso_step1_desc'',
       ''Step 1: Matching\<newline>The AI is applying the ISO principle...''),
      (''iso_step2_desc'',
       ''Step 2: Entrainment\<newline>Based on resonance, the music will subtly transform...''),
      (''iso_step3_desc'',
       ''ISO principle application complete. Preparing your music...''),
      (''video_main_title'',
       ''A Mindful Journey, Just For You''),
      (''video_subtitle_prefix'',
       ''Healing Protocol ID''),
      (''video_title_generic'',
       ''This Healing Journey, Is Just For You''),
      (''video_title_fallback'',
       ''Sound of Healing (Fallback)''),
      (''prelude_text'',
       ''Please follow the halo... and breathe deeply...''),
      (''epilogue_text'',
       ''Let this peace slowly merge with your breath.''),
      (''connection_lost'',
       ''Connection to the server was lost. Please refresh and try again.''),
      (''protocol_activated_template'',
       ''{protocolName} Activated''),
      (''protocol_anxiety_relief_critical'',
       ''Deep Anxiety Relief Protocol''),
      (''protocol_anger_release'',
       ''Anger Release Protocol''),
      (''protocol_fear_soothing'',
       ''Fear Soothing Protocol''),
      (''protocol_calm_maintenance'',
       ''Deep Calm Maintenance Protocol''),
      (''protocol_sadness_support'',
       ''Sadness Support Protocol''),
      (''protocol_joy_energy'',
       ''Joyful Energy Protocol''),
      (''protocol_anxiety_relief_moderate'',
       ''Moderate Anxiety Relief Protocol''),
      (''protocol_positive_excitement'',
       ''Positive Excitement Protocol''),
      (''protocol_nostalgia_comfort'',
       ''Nostalgia Comfort Protocol''),
      (''protocol_interest_sparking'',
       ''Interest Sparking Protocol''),
      (''protocol_default'',
       ''Basic Emotional Balance Protocol''),
      (''value_major'',
       ''Major''),
      (''value_minor'',
       ''Minor''),
      (''value_neutral'',
       ''Neutral''),
      (''value_loud'',
       ''Loud''),
      (''value_soft'',
       ''Soft''),
      (''value_medium'',
       ''Medium''),
      (''value_consonant'',
       ''Consonant''),
      (''value_dissonant'',
       ''Dissonant''),
      (''value_mixed'',
       ''Mixed''),
      (''value_high'',
       ''High''),
      (''value_low'',
       ''Low''),
      (''value_dense'',
       ''Dense''),
      (''value_sparse'',
       ''Sparse''),
      (''value_warm_pad'',
       ''Warm Pad''),
      (''value_expressive_strings'',
       ''Expressive Strings''),
      (''value_soft_choir'',
       ''Soft Choir''),
      (''value_nature_sounds'',
       ''Nature Sounds''),
      (''value_gentle_piano'',
       ''Gentle Piano''),
      (''value_bright_ensemble'',
       ''Bright Ensemble''),
      (''value_ambient_pad'',
       ''Ambient Pad''),
      (''value_energetic_mix'',
       ''Energetic Mix''),
      (''value_vintage_warmth'',
       ''Vintage Warmth''),
      (''value_interesting_textures'',
       ''Interesting Textures''),
      (''value_neutral_pad'',
       ''Neutral Pad''),
      (''approach_integration'',
       ''Utilizing neutral, balanced music to promote emotional integration and self-awareness.''),
      (''approach_anxiety_relief'',
       ''Employing slow, consonant music to gradually reduce physiological arousal and create a sense of safety.''),
      (''approach_anger_release'',
       ''Initiating with music that matches the emotional energy to establish a connection, then gradually guiding towards a calmer state.''),
      (''approach_sadness_support'',
       ''Starting with empathetic music and progressively introducing warm, ascending musical elements to instill a sense of hope.''),
      (''approach_positive_maintenance'',
       ''Maintaining a positive state while avoiding over-stimulation through stable rhythms and structure.'')]"

record lang_resources =
  lang_zh :: "string \<rightharpoonup> string"
  lang_en :: "string \<rightharpoonup> string"

definition langResources :: "(string \<rightharpoonup> string) \<Rightarrow> lang_resources" where
  "langResources zh = \<lparr>lang_zh = zh, lang_en = literal langResources_en\<rparr>"

text \<open>
  \<^verbatim>\<open>getText\<close> fixes \<^verbatim>\<open>lang\<close> to \<^verbatim>\<open>'en'\<close> and returns \<^verbatim>\<open>resource[key] || key\<close>.
\<close>

definition getText :: "(string \<rightharpoonup> string) \<Rightarrow> string \<Rightarrow> jsval" where
  "getText zh key =
     (let resource = lang_en (langResources zh)
      in case js_get resource key of
           Own text \<Rightarrow> if text \<noteq> [] then Str text else Str key
         | Inherited n \<Rightarrow> Proto n
         | Undefined \<Rightarrow> Str key)"


section \<open>Audio fading\<close>

text \<open>
  JavaScript numbers are IEEE doubles.  The model takes the finite ones as rationals and
  every arithmetic operation as the exact operation followed by a rounding function
  \<open>rnd\<close>, which is a parameter; division by zero gives an infinity or \<^verbatim>\<open>NaN\<close>, and
  comparisons with \<^verbatim>\<open>NaN\<close> are false.  Exact arithmetic is the case where \<open>rnd\<close> is
  the identity.
\<close>

datatype jsnum = Num rat | PosInf | NegInf | NaN

fun js_lt :: "jsnum \<Rightarrow> jsnum \<Rightarrow> bool" where
  "js_lt (Num a) (Num b) = (a < b)"
| "js_lt NaN y = False"
| "js_lt x NaN = False"
| "js_lt x NegInf = False"
| "js_lt PosInf y = False"
| "js_lt NegInf y = True"
| "js_lt x PosInf = True"

fun js_le :: "jsnum \<Rightarrow> jsnum \<Rightarrow> bool" where
  "js_le (Num a) (Num b) = (a \<le> b)"
| "js_le NaN y = False"
| "js_le x NaN = False"
| "js_le NegInf y = True"
| "js_le x PosInf = True"
| "js_le x NegInf = False"
| "js_le PosInf y = False"

fun js_add :: "(rat \<Rightarrow> rat) \<Rightarrow> jsnum \<Rightarrow> jsnum \<Rightarrow> jsnum" where
  "js_add rnd (Num a) (Num b) = Num (rnd (a + b))"
| "js_add rnd NaN y = NaN"
| "js_add rnd x NaN = NaN"
| "js_add rnd PosInf NegInf = NaN"
| "js_add rnd NegInf PosInf = NaN"
| "js_add rnd PosInf y = PosInf"
| "js_add rnd NegInf y = NegInf"
| "js_add rnd x PosInf = PosInf"
| "js_add rnd x NegInf = NegInf"

definition js_divide :: "(rat \<Rightarrow> rat) \<Rightarrow> rat \<Rightarrow> rat \<Rightarrow> jsnum" where
  "js_divide rnd a b =
     (if b = 0 then (if a = 0 then NaN else if 0 < a then PosInf else NegInf)
      else Num (rnd (a / b)))"

text \<open>
  A running fade is the closure of its interval callback: the end volume and the step.
  In the first version (\<^verbatim>\<open>fadeAudio\<close> with \<^verbatim>\<open>videoElement.fadeInterval\<close>) the element
  holds the one fade that runs on it.  Assigning to \<^verbatim>\<open>volume\<close> a value that is not
  a finite number in [0, 1] throws, which ends the callback with the volume unchanged.
  The callback's test \<^verbatim>\<open>!videoElement\<close> is false for every element and is left out.
\<close>

record fade =
  fadeEnd :: rat
  fadeStep :: jsnum

record video =
  volume :: rat
  fadeInterval :: "fade option"

definition setVolume :: "jsnum \<Rightarrow> video \<Rightarrow> video" where
  "setVolume x el =
     (case x of Num v \<Rightarrow> if 0 \<le> v \<and> v \<le> 1 then el\<lparr>volume := v\<rparr> else el | _ \<Rightarrow> el)"

definition fadeAudio :: "(rat \<Rightarrow> rat) \<Rightarrow> rat \<Rightarrow> rat \<Rightarrow> video \<Rightarrow> video" where
  "fadeAudio rnd endVolume duration videoElement =
     (let startVolume = volume videoElement;
          intervalTime = 50;
          stepCount = rnd (duration / intervalTime);
          volumeStep = js_divide rnd (rnd (endVolume - startVolume)) stepCount
      in if startVolume = endVolume then videoElement
         else videoElement\<lparr>fadeInterval := Some \<lparr>fadeEnd = endVolume, fadeStep = volumeStep\<rparr>\<rparr>)"

definition fadeTick :: "(rat \<Rightarrow> rat) \<Rightarrow> video \<Rightarrow> video" where
  "fadeTick rnd videoElement =
     (case fadeInterval videoElement of
        None \<Rightarrow> videoElement
      | Some f \<Rightarrow>
          (let endVolume = fadeEnd f; volumeStep = fadeStep f;
               newVolume = js_add rnd (Num (volume videoElement)) volumeStep
           in if (js_lt (Num 0) volumeStep \<and> js_le (Num endVolume) newVolume)
                 \<or> (js_lt volumeStep (Num 0) \<and> js_le newVolume (Num endVolume))
              then setVolume (Num endVolume) (videoElement\<lparr>fadeInterval := None\<rparr>)
              else setVolume newVolume videoElement))"

text \<open>
  The second version (in \<^verbatim>\<open>frontend/study_flow.js\<close>) keeps the interval in a local
  variable: \<^verbatim>\<open>fadeAudio\<close> yields the fade it registers, if any, and a tick of that
  fade maps the volume to the new volume and tells whether the interval was cleared.
\<close>

definition assignVolume :: "jsnum \<Rightarrow> rat \<Rightarrow> rat" where
  "assignVolume x v = (case x of Num w \<Rightarrow> if 0 \<le> w \<and> w \<le> 1 then w else v | _ \<Rightarrow> v)"

definition fadeAudio_frontend :: "(rat \<Rightarrow> rat) \<Rightarrow> rat \<Rightarrow> rat \<Rightarrow> rat \<Rightarrow> fade option" where
  "fadeAudio_frontend rnd endVolume duration startVolume =
     (let intervalTime = 50;
          stepCount = rnd (duration / intervalTime);
          volumeStep = js_divide rnd (rnd (endVolume - startVolume)) stepCount
      in if startVolume = endVolume then None
         else Some \<lparr>fadeEnd = endVolume, fadeStep = volumeStep\<rparr>)"

definition fadeTick_frontend :: "(rat \<Rightarrow> rat) \<Rightarrow> fade \<Rightarrow> rat \<Rightarrow> rat \<times> bool" where
  "fadeTick_frontend rnd f v =
     (let endVolume = fadeEnd f; volumeStep = fadeStep f;
          newVolume = js_add rnd (Num v) volumeStep
      in if js_lt (Num 0) volumeStep
         then (if js_le (Num endVolume) newVolume
               then (assignVolume (Num endVolume) v, True)
               else (assignVolume newVolume v, False))
         else (if js_le newVolume (Num endVolume)
               then (assignVolume (Num endVolume) v, True)
               else (assignVolume newVolume v, False)))"

text \<open>
  A run of the second version: the volume of the element together with the interval
  the call registered, while that interval is pending.  A pending interval runs its
  callback at a tick, and an interval that was cleared (or never registered) runs no
  more.
\<close>

definition fadeStart_frontend :: "(rat \<Rightarrow> rat) \<Rightarrow> rat \<Rightarrow> rat \<Rightarrow> rat \<Rightarrow> rat \<times> fade option" where
  "fadeStart_frontend rnd endVolume duration startVolume =
     (startVolume, fadeAudio_frontend rnd endVolume duration startVolume)"

definition fadeNext_frontend :: "(rat \<Rightarrow> rat) \<Rightarrow> rat \<times> fade option \<Rightarrow> rat \<times> fade option" where
  "fadeNext_frontend rnd p =
     (case snd p of
        None \<Rightarrow> p
      | Some f \<Rightarrow>
          (let (v, cleared) = fadeTick_frontend rnd f (fst p)
           in (v, if cleared then None else Some f)))"

text \<open>
  \<open>towards v w e\<close>: going from \<open>v\<close> to \<open>w\<close> moves toward \<open>e\<close> and not past it.
  \<open>rounding\<close>: what the proofs need of the rounding function, which IEEE rounding
  to nearest provides: it is monotone and leaves its own results unchanged.
  \<open>fading\<close>: the state of an element while a fade from \<open>v0\<close> to \<open>e\<close> runs or after
  it has ended.
\<close>

definition towards :: "rat \<Rightarrow> rat \<Rightarrow> rat \<Rightarrow> bool" where
  "towards v w e = ((v \<le> w \<and> w \<le> e) \<or> (e \<le> w \<and> w \<le> v))"

definition rounding :: "(rat \<Rightarrow> rat) \<Rightarrow> bool" where
  "rounding rnd = (mono rnd \<and> (\<forall>x. rnd (rnd x) = rnd x))"


definition fading :: "(rat \<Rightarrow> rat) \<Rightarrow> rat \<Rightarrow> rat \<Rightarrow> jsnum \<Rightarrow> video \<Rightarrow> bool" where
  "fading rnd v0 e s el =
     (0 \<le> volume el \<and> volume el \<le> 1 \<and> towards v0 (volume el) e
      \<and> ((fadeInterval el = None \<and> volume el = e)
         \<or> (fadeInterval el = Some \<lparr>fadeEnd = e, fadeStep = s\<rparr> \<and> rnd (volume el) = volume el)))"


section \<open>The therapy page: timers, polling and the stage sequencer\<close>

text \<open>
  Two versions of the page script are in the repository: \<^verbatim>\<open>study_flow.js (V13)\<close> and
  \<^verbatim>\<open>frontend/study_flow.js\<close>.  They share their structure and differ in delays and in
  a few guards; the model holds which of the two the page has loaded.
\<close>

datatype script = StudyFlowV13 | StudyFlowFrontend

text \<open>
  The data of a polled response is whatever \<^verbatim>\<open>response.json()\<close> parsed: a JSON value.
  \<open>readProperty x k\<close> is the read \<^verbatim>\<open>x.k\<close>, where \<open>x\<close> is a JSON value or \<^verbatim>\<open>undefined\<close>
  (\<open>None\<close>): on \<^verbatim>\<open>undefined\<close> and on \<^verbatim>\<open>null\<close> the read throws a \<^verbatim>\<open>TypeError\<close> (the
  result \<open>None\<close>), on an object it yields the property (of a repeated key the last
  one) or \<^verbatim>\<open>undefined\<close>, and on any other value \<^verbatim>\<open>undefined\<close>.  The scripts read the
  keys \<^verbatim>\<open>status\<close>, \<^verbatim>\<open>result\<close>, \<^verbatim>\<open>analysisResult\<close>, \<^verbatim>\<open>topEmotions\<close>, \<^verbatim>\<open>kgResult\<close>,
  \<^verbatim>\<open>isoPrinciple\<close>, \<^verbatim>\<open>title\<close>, \<^verbatim>\<open>video\<close>, \<^verbatim>\<open>displayNameKey\<close>, \<^verbatim>\<open>fileName\<close> and
  \<^verbatim>\<open>score\<close>, none of which names a property of a built-in prototype.  \<open>readPath\<close> is
  a chain of such reads.
\<close>

datatype json =
    JsonNull
  | JsonBool bool
  | JsonNumber rat
  | JsonString string
  | JsonArray "json list"
  | JsonObject "(string \<times> json) list"

fun readProperty :: "json option \<Rightarrow> string \<Rightarrow> json option option" where
  "readProperty None k = None"
| "readProperty (Some JsonNull) k = None"
| "readProperty (Some (JsonObject kvs)) k = Some (literal kvs k)"
| "readProperty (Some v) k = Some None"

fun readPath :: "json option \<Rightarrow> string list \<Rightarrow> json option option" where
  "readPath x [] = Some x"
| "readPath x (k # ks) = (case readProperty x k of None \<Rightarrow> None | Some y \<Rightarrow> readPath y ks)"

text \<open>
  A function of the scripts either returns or throws; either way it leaves a state
  of the page behind.
\<close>

datatype 'a completion = Returns (outcome: 'a) | Throws (outcome: 'a)

text \<open>
  The callbacks the scripts register with \<^verbatim>\<open>setTimeout\<close> and \<^verbatim>\<open>setInterval\<close>.  The
  callback that draws the emotion map holds the data \<^verbatim>\<open>handleState\<close> was called with.
  A callback that only changes what the page displays, and registers no timer, is a
  \<open>Display\<close>, named by what it shows; whether such a callback throws makes no
  difference to the timers.  The elements of the document the scripts look up are
  taken to exist.
\<close>

datatype action =
    PollTick
  | StartPolling
  | TypingTick
  | EmotionMap json
  | IsoStepTwo
  | IsoStepThree
  | IsoFinish
  | SwitchOut string
  | SwitchIn string
  | PreludeEnd
  | FadeTick
  | FadeTickOf fade
  | Display string

text \<open>
  A pending timer: its id, the time at which it is due (milliseconds), its period
  when it is an interval, how often it has run, and its callback.
\<close>

record timer =
  timerId :: nat
  due :: nat
  period :: "nat option"
  fired :: nat
  callback :: action

text \<open>
  The state of the page: the clock, the pending timers in the order of their
  registration, the next timer id, the script's variables \<^verbatim>\<open>sessionId\<close>,
  \<^verbatim>\<open>pollingIntervalId\<close> and \<^verbatim>\<open>currentStageId\<close>, the number of \<^verbatim>\<open>session_status\<close>
  requests not yet answered, the times at which such requests were issued, the ids of
  the stage cards the document has, the video element and the id held in its
  \<^verbatim>\<open>fadeInterval\<close> property.
\<close>

record page =
  loaded :: script
  clock :: nat
  timers :: "timer list"
  nextTimerId :: nat
  therapySessionId :: "string option"
  pollingIntervalId :: "nat option"
  currentStageId :: string
  inFlight :: nat
  fetches :: "nat list"
  cards :: "string list"
  healingVideo :: video
  fadeIntervalId :: "nat option"

definition setTimeout :: "action \<Rightarrow> nat \<Rightarrow> page \<Rightarrow> page" where
  "setTimeout f delay st =
     st\<lparr>timers := timers st @
            [\<lparr>timerId = nextTimerId st, due = clock st + delay, period = None, fired = 0,
              callback = f\<rparr>],
        nextTimerId := nextTimerId st + 1\<rparr>"

definition setInterval :: "action \<Rightarrow> nat \<Rightarrow> page \<Rightarrow> nat \<times> page" where
  "setInterval f delay st =
     (nextTimerId st,
      st\<lparr>timers := timers st @
            [\<lparr>timerId = nextTimerId st, due = clock st + delay, period = Some delay, fired = 0,
              callback = f\<rparr>],
         nextTimerId := nextTimerId st + 1\<rparr>)"

definition clearInterval :: "nat option \<Rightarrow> page \<Rightarrow> page" where
  "clearInterval handle st =
     (case handle of
        None \<Rightarrow> st
      | Some i \<Rightarrow> st\<lparr>timers := filter (\<lambda>t. timerId t \<noteq> i) (timers st)\<rparr>)"

definition startPolling :: "page \<Rightarrow> page" where
  "startPolling st =
     (let st1 = (case pollingIntervalId st of
                   Some i \<Rightarrow> if i \<noteq> 0 then clearInterval (Some i) st else st
                 | None \<Rightarrow> st);
          (i, st2) = setInterval PollTick 2000 st1
      in st2\<lparr>pollingIntervalId := Some i\<rparr>)"

text \<open>
  The keys of the object \<^verbatim>\<open>stages\<close>, seven in the V13 script and six in the other one.
  \<^verbatim>\<open>stages[k]\<close> is an element when \<open>k\<close> is one of these keys and the document has
  that card; otherwise it is \<^verbatim>\<open>undefined\<close> or \<^verbatim>\<open>null\<close>, and reading a property of it
  throws.
\<close>

definition allCards :: "string list" where
  "allCards = [''step-input'', ''step-emotion-analysis'', ''step-kg-result'', ''step-iso-principle'',
     ''step-synthesis'', ''step-video-player'', ''step-conclusion'']"

definition frontendCards :: "string list" where
  "frontendCards = [''step-input'', ''step-emotion-analysis'', ''step-kg-result'',
     ''step-iso-principle'', ''step-video-player'', ''step-conclusion'']"

definition stageKeys :: "script \<Rightarrow> string list" where
  "stageKeys s = (case s of StudyFlowV13 \<Rightarrow> allCards | StudyFlowFrontend \<Rightarrow> frontendCards)"

definition hasCard :: "page \<Rightarrow> string \<Rightarrow> bool" where
  "hasCard st k = (k \<in> set (stageKeys (loaded st)) \<and> k \<in> set (cards st))"

definition switchToStage :: "string \<Rightarrow> page \<Rightarrow> page" where
  "switchToStage nextStageId st =
     (if hasCard st (currentStageId st) then setTimeout (SwitchOut nextStageId) 600 st else st)"

definition fadeAudioOn :: "(rat \<Rightarrow> rat) \<Rightarrow> rat \<Rightarrow> rat \<Rightarrow> page \<Rightarrow> page" where
  "fadeAudioOn rnd endVolume duration st =
     (case loaded st of
        StudyFlowV13 \<Rightarrow>
          if volume (healingVideo st) = endVolume then st
          else (let st1 = clearInterval (fadeIntervalId st) st;
                    (i, st2) = setInterval FadeTick 50 st1
                in st2\<lparr>healingVideo := fadeAudio rnd endVolume duration (healingVideo st),
                       fadeIntervalId := Some i\<rparr>)
      | StudyFlowFrontend \<Rightarrow>
          (case fadeAudio_frontend rnd endVolume duration (volume (healingVideo st)) of
             None \<Rightarrow> st
           | Some f \<Rightarrow> snd (setInterval (FadeTickOf f) 50 st)))"

text \<open>
  \<^verbatim>\<open>runKgSequence\<close> registers its two timeouts; the argument is used only by the
  second callback.
\<close>

definition runKgSequence :: "page \<Rightarrow> page" where
  "runKgSequence st =
     setTimeout (Display ''prescription-card'') 8000 (setTimeout (Display ''kg-extraction'') 4000 st)"

text \<open>
  \<^verbatim>\<open>handleState\<close> of the V13 script.  The branch for \<^verbatim>\<open>KG_COMPLETE\<close> evaluates
  \<^verbatim>\<open>data.result.kgResult\<close> after it has cleared the polling interval and switched the
  stage, and throws there when \<^verbatim>\<open>data.result\<close> is missing; the branch for
  \<^verbatim>\<open>VIDEO_READY\<close> reads \<^verbatim>\<open>data.result.video\<close> and its \<^verbatim>\<open>displayNameKey\<close> and calls
  \<^verbatim>\<open>split\<close> on its \<^verbatim>\<open>fileName\<close>, which must be a string.
\<close>

definition handleState :: "json \<Rightarrow> page \<Rightarrow> page completion" where
  "handleState data st =
     (case readProperty (Some data) ''status'' of
        None \<Rightarrow> Throws st
      | Some status \<Rightarrow>
          if status = Some (JsonString ''AC_COMPLETE'') then
            (let st1 = clearInterval (pollingIntervalId st) st;
                 st2 = switchToStage ''step-emotion-analysis'' st1;
                 st3 = snd (setInterval TypingTick 1200 st2)
             in Returns (setTimeout (EmotionMap data) 3500 st3))
          else if status = Some (JsonString ''KG_COMPLETE'') then
            (let st1 = clearInterval (pollingIntervalId st) st;
                 st2 = switchToStage ''step-kg-result'' st1
             in case readPath (Some data) [''result'', ''kgResult''] of
                  None \<Rightarrow> Throws st2
                | Some kgResult \<Rightarrow> Returns (setTimeout StartPolling 13000 (runKgSequence st2)))
          else if status = Some (JsonString ''ISO_PRINCIPLE_READY'') then
            (let st1 = clearInterval (pollingIntervalId st) st;
                 st2 = switchToStage ''step-iso-principle'' st1
             in if \<not> hasCard st ''step-iso-principle'' then Throws st2
                else (let st3 = setTimeout (Display ''iso-step1'') 500 st2;
                          st4 = setTimeout IsoStepTwo 4500 st3;
                          st5 = setTimeout IsoStepThree 8500 st4
                      in Returns (setTimeout IsoFinish 11000 st5)))
          else if status = Some (JsonString ''VIDEO_READY'') then
            (let st1 = clearInterval (pollingIntervalId st) st
             in if \<not> hasCard st ''step-video-player'' then Throws st1
                else (case readPath (Some data) [''result'', ''video'', ''fileName''] of
                        Some (Some (JsonString fileName)) \<Rightarrow>
                          (let st2 = st1\<lparr>healingVideo := (healingVideo st1)\<lparr>volume := 0\<rparr>\<rparr>;
                               st3 = switchToStage ''step-video-player'' st2;
                               st4 = setTimeout (Display ''overlay-visible'') 100 st3
                           in Returns (setTimeout PreludeEnd 3500 st4))
                      | _ \<Rightarrow> Throws st1))
          else Returns st)"

text \<open>
  \<^verbatim>\<open>handleState\<close> of \<^verbatim>\<open>frontend/study_flow.js\<close>.  It reads \<^verbatim>\<open>data.result.kgResult\<close>,
  \<^verbatim>\<open>data.result.isoPrinciple.title\<close> and \<^verbatim>\<open>data.result.video.title\<close> (a string, for
  \<^verbatim>\<open>split\<close>) right after it has cleared the polling interval, before it switches the
  stage or registers a timer.
\<close>

definition handleState_frontend :: "json \<Rightarrow> page \<Rightarrow> page completion" where
  "handleState_frontend data st =
     (case readProperty (Some data) ''status'' of
        None \<Rightarrow> Throws st
      | Some status \<Rightarrow>
          if status = Some (JsonString ''AC_COMPLETE'') then
            (let st1 = clearInterval (pollingIntervalId st) st;
                 st2 = switchToStage ''step-emotion-analysis'' st1;
                 st3 = snd (setInterval TypingTick 1200 st2)
             in Returns (setTimeout (EmotionMap data) 3500 st3))
          else if status = Some (JsonString ''KG_COMPLETE'') then
            (let st1 = clearInterval (pollingIntervalId st) st
             in if \<not> hasCard st ''step-kg-result'' then Throws st1
                else (case readPath (Some data) [''result'', ''kgResult''] of
                        None \<Rightarrow> Throws st1
                      | Some resultData \<Rightarrow>
                          (let st2 = switchToStage ''step-kg-result'' st1;
                               st3 = setTimeout (Display ''gems-mapping'') 500 st2;
                               st4 = setTimeout (Display ''kg-extraction'') 4000 st3;
                               st5 = setTimeout (Display ''therapy-summary'') 10000 st4
                           in Returns (setTimeout StartPolling 13500 st5))))
          else if status = Some (JsonString ''ISO_PRINCIPLE_READY'') then
            (let st1 = clearInterval (pollingIntervalId st) st
             in if \<not> hasCard st ''step-iso-principle'' then Throws st1
                else (case readPath (Some data) [''result'', ''isoPrinciple'', ''title''] of
                        None \<Rightarrow> Throws st1
                      | Some title \<Rightarrow>
                          (let st2 = switchToStage ''step-iso-principle'' st1;
                               st3 = setTimeout (Display ''iso-step1'') 500 st2;
                               st4 = setTimeout IsoStepTwo 4500 st3;
                               st5 = setTimeout IsoStepThree 8500 st4
                           in Returns (setTimeout StartPolling 12500 st5))))
          else if status = Some (JsonString ''VIDEO_READY'') then
            (let st1 = clearInterval (pollingIntervalId st) st
             in if \<not> hasCard st ''step-video-player'' then Throws st1
                else (case readPath (Some data) [''result'', ''video'', ''title''] of
                        Some (Some (JsonString title)) \<Rightarrow>
                          (let st2 = st1\<lparr>healingVideo := (healingVideo st1)\<lparr>volume := 0\<rparr>\<rparr>;
                               st3 = switchToStage ''step-video-player'' st2;
                               st4 = setTimeout (Display ''overlay-visible'') 100 st3
                           in Returns (setTimeout PreludeEnd 3500 st4))
                      | _ \<Rightarrow> Throws st1))
          else Returns st)"

text \<open>
  The callback that draws the emotion map reads \<^verbatim>\<open>data.result.analysisResult.topEmotions\<close>,
  calls \<^verbatim>\<open>slice(1)\<close> on it and reads \<^verbatim>\<open>score\<close> of every element of the slice, before it
  registers its two timeouts.  These reads succeed when the value is an array with
  no \<^verbatim>\<open>null\<close> after its first element; otherwise the callback throws and registers
  nothing.
\<close>

definition drawsEmotionMap :: "json \<Rightarrow> bool" where
  "drawsEmotionMap data =
     (case readPath (Some data) [''result'', ''analysisResult'', ''topEmotions''] of
        Some (Some (JsonArray emotions)) \<Rightarrow> JsonNull \<notin> set (tl emotions)
      | _ \<Rightarrow> False)"

text \<open>
  The callback of the polling interval up to its \<^verbatim>\<open>await fetch\<close>: the V13 script stops
  polling when there is no session id, and otherwise a request goes out.
\<close>

definition pollTick :: "page \<Rightarrow> page" where
  "pollTick st =
     (let request = st\<lparr>inFlight := inFlight st + 1, fetches := fetches st @ [clock st]\<rparr>
      in case loaded st of
           StudyFlowV13 \<Rightarrow>
             (case therapySessionId st of
                Some sid \<Rightarrow> if sid \<noteq> [] then request else clearInterval (pollingIntervalId st) st
              | None \<Rightarrow> clearInterval (pollingIntervalId st) st)
         | StudyFlowFrontend \<Rightarrow> request)"

text \<open>
  What a timer's callback does when it runs; \<open>t\<close> is the timer as it is after this
  run was counted.
\<close>

definition runCallback :: "(rat \<Rightarrow> rat) \<Rightarrow> timer \<Rightarrow> page \<Rightarrow> page" where
  "runCallback rnd t st =
     (case callback t of
        PollTick \<Rightarrow> pollTick st
      | StartPolling \<Rightarrow> startPolling st
      | TypingTick \<Rightarrow> if fired t < 3 then st else clearInterval (Some (timerId t)) st
      | EmotionMap data \<Rightarrow>
          if drawsEmotionMap data then
            (case loaded st of
               StudyFlowV13 \<Rightarrow>
                 setTimeout StartPolling 4000 (setTimeout (Display ''emotion-title'') 3500 st)
             | StudyFlowFrontend \<Rightarrow>
                 setTimeout StartPolling 8000 (setTimeout (Display ''emotion-title'') 3500 st))
          else st
      | IsoStepTwo \<Rightarrow> setTimeout (Display ''iso-step2'') 600 st
      | IsoStepThree \<Rightarrow>
          setTimeout (Display ''iso-exit'') 2000 (setTimeout (Display ''iso-step3'') 600 st)
      | IsoFinish \<Rightarrow> startPolling (switchToStage ''step-synthesis'' st)
      | SwitchOut nextStageId \<Rightarrow>
          if hasCard st nextStageId then setTimeout (SwitchIn nextStageId) 50 st else st
      | SwitchIn nextStageId \<Rightarrow> st\<lparr>currentStageId := nextStageId\<rparr>
      | PreludeEnd \<Rightarrow>
          (case loaded st of
             StudyFlowV13 \<Rightarrow> fadeAudioOn rnd 1 5000 st
           | StudyFlowFrontend \<Rightarrow> fadeAudioOn rnd 1 2500 st)
      | FadeTick \<Rightarrow>
          (let el = fadeTick rnd (healingVideo st);
               st1 = st\<lparr>healingVideo := el\<rparr>
           in if fadeInterval (healingVideo st) \<noteq> None \<and> fadeInterval el = None
              then (clearInterval (fadeIntervalId st1) st1)\<lparr>fadeIntervalId := None\<rparr>
              else st1)
      | FadeTickOf f \<Rightarrow>
          (let (v, cleared) = fadeTick_frontend rnd f (volume (healingVideo st));
               st1 = st\<lparr>healingVideo := (healingVideo st)\<lparr>volume := v\<rparr>\<rparr>
           in if cleared then clearInterval (Some (timerId t)) st1 else st1)
      | Display what \<Rightarrow> st)"

text \<open>
  The event loop runs the pending timer that is due first (the one registered first
  among equals): the clock moves to its due time, a timeout is removed and an interval
  is set to its next due time, and the callback runs.
\<close>

fun earliest :: "timer list \<Rightarrow> timer option" where
  "earliest [] = None"
| "earliest (t # ts) =
     (case earliest ts of
        None \<Rightarrow> Some t
      | Some u \<Rightarrow> if due t \<le> due u then Some t else Some u)"

definition fire :: "(rat \<Rightarrow> rat) \<Rightarrow> page \<Rightarrow> page" where
  "fire rnd st =
     (case earliest (timers st) of
        None \<Rightarrow> st
      | Some t \<Rightarrow>
          (let t1 = (case period t of
                       None \<Rightarrow> t
                     | Some p \<Rightarrow> t\<lparr>due := due t + p, fired := fired t + 1\<rparr>);
               pending = (case period t of
                            None \<Rightarrow> filter (\<lambda>u. timerId u \<noteq> timerId t) (timers st)
                          | Some p \<Rightarrow> map (\<lambda>u. if timerId u = timerId t then t1 else u) (timers st))
           in runCallback rnd t1 (st\<lparr>clock := max (clock st) (due t), timers := pending\<rparr>)))"

text \<open>
  What reaches the page from outside: the answer to a \<^verbatim>\<open>session_status\<close> request, the
  answer to \<^verbatim>\<open>create_session\<close> carrying a session id, and a click on the restart
  button.  Each comes with its time, which is not before the clock nor after the due
  time of a pending timer.  The answer to a request is a response, with its \<^verbatim>\<open>ok\<close>
  flag and the JSON value of its body when the body parses, or the failure of
  \<^verbatim>\<open>fetch\<close>.
\<close>

datatype reply = Response bool "json option" | NetworkFailure

datatype event =
    Fire
  | Respond nat reply
  | SessionCreated nat string
  | Restart nat

definition arrives :: "nat \<Rightarrow> page \<Rightarrow> bool" where
  "arrives ms st = (clock st \<le> ms \<and> list_all (\<lambda>t. ms \<le> due t) (timers st))"

text \<open>
  The rest of the polling callback, after \<^verbatim>\<open>await fetch\<close>.  The V13 script runs it in
  a \<^verbatim>\<open>try\<close> block: a failed \<^verbatim>\<open>fetch\<close>, a response that is not ok, a body that does
  not parse, the status \<^verbatim>\<open>ERROR\<close> and an exception of \<^verbatim>\<open>handleState\<close> all end in the
  \<^verbatim>\<open>catch\<close> block, which clears the polling interval.  The other script has no
  \<^verbatim>\<open>try\<close> and does not look at \<^verbatim>\<open>ok\<close>: an exception ends the callback.
\<close>

definition pollingFailed :: "page \<Rightarrow> page" where
  "pollingFailed st = clearInterval (pollingIntervalId st) st"

definition respond :: "reply \<Rightarrow> page \<Rightarrow> page" where
  "respond r st =
     (case loaded st of
        StudyFlowV13 \<Rightarrow>
          (case r of
             Response responseOk parsed \<Rightarrow>
               if \<not> responseOk then pollingFailed st
               else (case parsed of
                       None \<Rightarrow> pollingFailed st
                     | Some statusData \<Rightarrow>
                         (case readProperty (Some statusData) ''status'' of
                            None \<Rightarrow> pollingFailed st
                          | Some status \<Rightarrow>
                              if status = Some (JsonString ''ERROR'') then pollingFailed st
                              else (case handleState statusData st of
                                      Returns st1 \<Rightarrow> st1
                                    | Throws st1 \<Rightarrow> pollingFailed st1)))
           | NetworkFailure \<Rightarrow> pollingFailed st)
      | StudyFlowFrontend \<Rightarrow>
          (case r of
             Response responseOk parsed \<Rightarrow>
               (case parsed of
                  None \<Rightarrow> st
                | Some statusData \<Rightarrow> outcome (handleState_frontend statusData st))
           | NetworkFailure \<Rightarrow> st))"

text \<open>
  The click on the restart button.  \<^verbatim>\<open>resetUI\<close> goes through all keys of \<^verbatim>\<open>stages\<close>
  and throws at one without a card, which ends the handler before it has changed a
  variable of the script.
\<close>

definition restart :: "page \<Rightarrow> page" where
  "restart st =
     (if list_all (hasCard st) (stageKeys (loaded st)) then
        (let st1 = st\<lparr>currentStageId := ''step-input''\<rparr>;
             st2 = (case pollingIntervalId st1 of
                      Some i \<Rightarrow> if i \<noteq> 0 then (clearInterval (Some i) st1)\<lparr>pollingIntervalId := None\<rparr>
                                else st1
                    | None \<Rightarrow> st1)
         in st2\<lparr>therapySessionId := None\<rparr>)
      else st)"

definition step :: "(rat \<Rightarrow> rat) \<Rightarrow> event \<Rightarrow> page \<Rightarrow> page option" where
  "step rnd ev st =
     (case ev of
        Fire \<Rightarrow> if timers st = [] then None else Some (fire rnd st)
      | Respond ms r \<Rightarrow>
          if 0 < inFlight st \<and> arrives ms st
          then Some (respond r (st\<lparr>clock := ms, inFlight := inFlight st - 1\<rparr>))
          else None
      | SessionCreated ms sid \<Rightarrow>
          if arrives ms st
          then (let st1 = st\<lparr>clock := ms, currentStageId := ''step-input'',
                          therapySessionId := Some sid\<rparr>
                in Some (if sid \<noteq> [] then startPolling st1 else st1))
          else None
      | Restart ms \<Rightarrow> if arrives ms st then Some (restart (st\<lparr>clock := ms\<rparr>)) else None)"

fun run :: "(rat \<Rightarrow> rat) \<Rightarrow> event list \<Rightarrow> page \<Rightarrow> page option" where
  "run rnd [] st = Some st"
| "run rnd (ev # evs) st = (case step rnd ev st of None \<Rightarrow> None | Some st1 \<Rightarrow> run rnd evs st1)"

definition initialPage :: "script \<Rightarrow> string list \<Rightarrow> rat \<Rightarrow> page" where
  "initialPage s stageCards v =
     \<lparr>loaded = s, clock = 0, timers = [], nextTimerId = 1, therapySessionId = None,
      pollingIntervalId = None, currentStageId = ''step-input'', inFlight = 0, fetches = [],
      cards = stageCards, healingVideo = \<lparr>volume = v, fadeInterval = None\<rparr>,
      fadeIntervalId = None\<rparr>"

definition polling :: "page \<Rightarrow> timer list" where
  "polling st = filter (\<lambda>t. callback t = PollTick) (timers st)"

section \<open>Predicates on the state of the page\<close>

text \<open>
  \<open>pollingInvariant\<close>: the timer ids are positive, pairwise different and below the
  next id, and every pending polling interval is the one whose id
  \<^verbatim>\<open>pollingIntervalId\<close> holds.
\<close>

definition timersOk :: "timer list \<Rightarrow> nat \<Rightarrow> nat option \<Rightarrow> bool" where
  "timersOk ts next handle =
     (distinct (map timerId ts) \<and> list_all (\<lambda>t. 0 < timerId t \<and> timerId t < next) ts \<and> 0 < next
      \<and> list_all (\<lambda>t. callback t = PollTick \<longrightarrow> handle = Some (timerId t)) ts)"

definition pollingInvariant :: "page \<Rightarrow> bool" where
  "pollingInvariant st = timersOk (timers st) (nextTimerId st) (pollingIntervalId st)"

text \<open>
  \<open>sessionActive\<close>: a tick of the polling interval issues a request (the V13 script
  requires a session id).
\<close>

definition sessionActive :: "page \<Rightarrow> bool" where
  "sessionActive st =
     (case loaded st of
        StudyFlowV13 \<Rightarrow> (case therapySessionId st of Some sid \<Rightarrow> sid \<noteq> [] | None \<Rightarrow> False)
      | StudyFlowFrontend \<Rightarrow> True)"

text \<open>
  Two answers of the backend, as the V13 script expects them.
\<close>

definition acComplete :: json where
  "acComplete =
     JsonObject
       [(''status'', JsonString ''AC_COMPLETE''),
        (''result'', JsonObject
           [(''analysisResult'', JsonObject
               [(''titleKey'', JsonString ''emotion_name_sadness''),
                (''topEmotions'', JsonArray
                   [JsonObject [(''nameKey'', JsonString ''emotion_name_sadness''),
                                (''score'', JsonNumber (17 / 20))],
                    JsonObject [(''nameKey'', JsonString ''emotion_name_nostalgia''),
                                (''score'', JsonNumber (3 / 5))]])])])]"

definition kgComplete :: json where
  "kgComplete =
     JsonObject
       [(''status'', JsonString ''KG_COMPLETE''),
        (''result'', JsonObject
           [(''kgResult'', JsonObject
               [(''emotion_analysis'', JsonObject
                   [(''max_emotion'', JsonArray [JsonString ''emotion_name_sadness'',
                                                  JsonNumber (17 / 20)])]),
                (''structured_params'', JsonObject [(''tempo'', JsonNumber 60)]),
                (''therapy_recommendation'', JsonObject
                   [(''therapy_approach_key'', JsonString ''practice_text_default'')])])])]"

text \<open>
  Concrete runs of the V13 page.  \<open>overlappingPolls\<close>: the session is created at time
  0, the polling interval ticks at 2000 and at 4000 with the first request still
  unanswered, and the first answer, \<^verbatim>\<open>AC_COMPLETE\<close>, arrives at 4100, which leaves the
  page in \<open>firstAnswered\<close>; the second answer, \<^verbatim>\<open>KG_COMPLETE\<close>, arrives at 4200 and
  leaves the page in \<open>secondAnswered\<close>.  \<open>singlePoll\<close>: the only request, issued at
  2000, is answered \<^verbatim>\<open>KG_COMPLETE\<close> at 2100, which leaves the page in
  \<open>onlyAnswered\<close>.  \<open>sessionReady\<close>: the initial page with a session id.
\<close>

definition overlappingPolls :: "event list" where
  "overlappingPolls =
     [SessionCreated 0 ''s1'', Fire, Fire, Respond 4100 (Response True (Some acComplete))]"

definition firstAnswered :: page where
  "firstAnswered =
     \<lparr>loaded = StudyFlowV13, clock = 4100,
      timers =
        [\<lparr>timerId = 2, due = 4700, period = None, fired = 0,
           callback = SwitchOut ''step-emotion-analysis''\<rparr>,
         \<lparr>timerId = 3, due = 5300, period = Some 1200, fired = 0, callback = TypingTick\<rparr>,
         \<lparr>timerId = 4, due = 7600, period = None, fired = 0, callback = EmotionMap acComplete\<rparr>],
      nextTimerId = 5, therapySessionId = Some ''s1'', pollingIntervalId = Some 1,
      currentStageId = ''step-input'', inFlight = 1, fetches = [2000, 4000], cards = allCards,
      healingVideo = \<lparr>volume = 1, fadeInterval = None\<rparr>, fadeIntervalId = None\<rparr>"

definition secondAnswered :: page where
  "secondAnswered =
     \<lparr>loaded = StudyFlowV13, clock = 4200,
      timers =
        [\<lparr>timerId = 2, due = 4700, period = None, fired = 0,
           callback = SwitchOut ''step-emotion-analysis''\<rparr>,
         \<lparr>timerId = 3, due = 5300, period = Some 1200, fired = 0, callback = TypingTick\<rparr>,
         \<lparr>timerId = 4, due = 7600, period = None, fired = 0, callback = EmotionMap acComplete\<rparr>,
         \<lparr>timerId = 5, due = 4800, period = None, fired = 0,
           callback = SwitchOut ''step-kg-result''\<rparr>,
         \<lparr>timerId = 6, due = 8200, period = None, fired = 0,
           callback = Display ''kg-extraction''\<rparr>,
         \<lparr>timerId = 7, due = 12200, period = None, fired = 0,
           callback = Display ''prescription-card''\<rparr>,
         \<lparr>timerId = 8, due = 17200, period = None, fired = 0, callback = StartPolling\<rparr>],
      nextTimerId = 9, therapySessionId = Some ''s1'', pollingIntervalId = Some 1,
      currentStageId = ''step-input'', inFlight = 0, fetches = [2000, 4000], cards = allCards,
      healingVideo = \<lparr>volume = 1, fadeInterval = None\<rparr>, fadeIntervalId = None\<rparr>"

definition singlePoll :: "event list" where
  "singlePoll = [SessionCreated 0 ''s1'', Fire, Respond 2100 (Response True (Some kgComplete))]"

definition onlyAnswered :: page where
  "onlyAnswered =
     \<lparr>loaded = StudyFlowV13, clock = 2100,
      timers =
        [\<lparr>timerId = 2, due = 2700, period = None, fired = 0,
           callback = SwitchOut ''step-kg-result''\<rparr>,
         \<lparr>timerId = 3, due = 6100, period = None, fired = 0,
           callback = Display ''kg-extraction''\<rparr>,
         \<lparr>timerId = 4, due = 10100, period = None, fired = 0,
           callback = Display ''prescription-card''\<rparr>,
         \<lparr>timerId = 5, due = 15100, period = None, fired = 0, callback = StartPolling\<rparr>],
      nextTimerId = 6, therapySessionId = Some ''s1'', pollingIntervalId = Some 1,
      currentStageId = ''step-input'', inFlight = 0, fetches = [2000], cards = allCards,
      healingVideo = \<lparr>volume = 1, fadeInterval = None\<rparr>, fadeIntervalId = None\<rparr>"

text \<open>
  The same two answers on the page of \<^verbatim>\<open>frontend/study_flow.js\<close>, followed by the timers
  that run up to the next request.
\<close>

definition overlappingPolls_frontend :: "event list" where
  "overlappingPolls_frontend =
     [SessionCreated 0 ''s1'', Fire, Fire, Respond 4100 (Response True (Some acComplete)),
      Respond 4200 (Response True (Some kgComplete)),
      Fire, Fire, Fire, Fire, Fire, Fire, Fire, Fire, Fire, Fire, Fire, Fire, Fire, Fire]"

definition sessionReady :: page where
  "sessionReady = (initialPage StudyFlowV13 allCards 1)\<lparr>therapySessionId := Some ''s1''\<rparr>"


section \<open>Properties of the flow\<close>

lemma indexOf_stepOrder:
  "indexOf stepOrder ''portal'' = 0"
  "indexOf stepOrder ''participant_info'' = 1"
  "indexOf stepOrder ''consent_form'' = 2"
  "indexOf stepOrder ''therapy'' = 3"
  "indexOf stepOrder ''questionnaire'' = 4"
  "indexOf stepOrder ''thank_you'' = 5"
  by (simp_all add: indexOf_def stepOrder_def)

lemma indexOf_from_lower: "- 1 \<le> i \<Longrightarrow> - 1 \<le> indexOf_from xs x i"
  by (induction xs arbitrary: i) auto

lemma indexOf_ge_minus_one: "- 1 \<le> indexOf xs x"
  by (simp add: indexOf_def indexOf_from_lower)

lemma indexOf_from_absent: "x \<notin> set xs \<Longrightarrow> indexOf_from xs x i = - 1"
  by (induction xs arbitrary: i) auto

lemma indexOf_absent: "x \<notin> set xs \<Longrightarrow> indexOf xs x = - 1"
  by (simp add: indexOf_def indexOf_from_absent)

lemma pageMap_of_step:
  "t \<in> set stepOrder \<Longrightarrow> \<exists>page. js_get pageMap t = Own page \<and> page \<noteq> []"
  by (auto simp: stepOrder_def pageMap_def literal_def js_get_def)

lemma navigateToPage_keeps_step:
  "currentStep (navigateToPage t st) = currentStep st"
  "storedStep (navigateToPage t st) = storedStep st"
  by (simp_all add: navigateToPage_def split: property.splits)

text \<open>
  C1 (as the code has it).  The six-entry step order runs portal, participant
  information (demographics), consent form, therapy, questionnaire, thank-you: the
  demographics step comes before the consent step.  The successor map of
  \<^verbatim>\<open>getNextStep\<close> sends the participant-information form to the consent form, the
  consent form to therapy and the questionnaire to the thank-you step; it has no entry
  for therapy, whose successor (the questionnaire) is set by
  \<^verbatim>\<open>integrateWithTherapySystem\<close>.
\<close>

theorem flow_order_demographics_then_consent:
  "length stepOrder = 6
   \<and> indexOf stepOrder ''portal'' < indexOf stepOrder ''participant_info''
   \<and> indexOf stepOrder ''participant_info'' < indexOf stepOrder ''consent_form''
   \<and> indexOf stepOrder ''consent_form'' < indexOf stepOrder ''therapy''
   \<and> indexOf stepOrder ''therapy'' < indexOf stepOrder ''questionnaire''
   \<and> indexOf stepOrder ''questionnaire'' < indexOf stepOrder ''thank_you''
   \<and> getNextStep ''participant_info'' = Own ''consent_form''
   \<and> getNextStep ''consent'' = Own ''therapy''
   \<and> getNextStep ''questionnaire'' = Own ''thank_you''
   \<and> getNextStep ''therapy'' = Undefined
   \<and> currentStep (integrateWithTherapySystem now st) = ''questionnaire''"
  by (simp add: indexOf_stepOrder getNextStep_def stepMap_def literal_def js_get_def
      objectPrototypeNames_def integrateWithTherapySystem_def setCurrentStep_def Let_def)
    (simp add: stepOrder_def)

text \<open>
  C1 as stated fails: the consent step does not precede the demographics step in the
  step order, and the successor of the participant-information form is the consent
  form, not therapy.
\<close>

theorem consent_first_counterexample:
  "\<not> (indexOf stepOrder ''consent_form'' < indexOf stepOrder ''participant_info'')
   \<and> getNextStep ''participant_info'' \<noteq> Own ''therapy''
   \<and> getNextStep ''consent'' \<noteq> Own ''participant_info''"
  by (simp add: indexOf_stepOrder getNextStep_def stepMap_def literal_def js_get_def)

text \<open>
  C3.  For every current step and every target step, \<^verbatim>\<open>proceedToStep\<close> returns
  true, sets the in-memory current step and the stored step to the target and calls
  \<^verbatim>\<open>navigateToPage\<close> exactly when the index of the target in the step order is at
  most the index of the current step plus one (a name that is not in the order has
  index \<open>-1\<close>).  For a target among the six steps the navigation loads that step's
  page.  When the guard fails the call returns false and leaves the current step, the
  stored step and the address of the page as they were.
\<close>

theorem proceedToStep_guarded:
  "(let guard = (indexOf stepOrder t \<le> indexOf stepOrder (currentStep st) + 1);
        r = proceedToStep t st
    in fst r = guard
     \<and> ((currentStep (snd r) = t \<and> storedStep (snd r) = Some t
          \<and> snd r = navigateToPage t (setCurrentStep t st)) = guard)
     \<and> (guard \<and> t \<in> set stepOrder \<longrightarrow> (\<exists>page. pageMap t = Some page \<and> href (snd r) = Str page))
     \<and> (\<not> guard \<longrightarrow> fst r = False \<and> currentStep (snd r) = currentStep st
          \<and> storedStep (snd r) = storedStep st \<and> href (snd r) = href st))"
proof -
  let ?guard = "indexOf stepOrder t \<le> indexOf stepOrder (currentStep st) + 1"
  let ?r = "proceedToStep t st"
  have can: "canProceedToStep st t = ?guard"
    by (simp add: canProceedToStep_def Let_def)
  have ret: "fst ?r = ?guard"
    by (simp add: proceedToStep_def can)
  have rejected: "currentStep (snd ?r) = currentStep st \<and> storedStep (snd ?r) = storedStep st
      \<and> href (snd ?r) = href st" if "\<not> ?guard"
    using that by (simp add: proceedToStep_def can showAlert_def)
  have accepted: "snd ?r = navigateToPage t (setCurrentStep t st)" if "?guard"
    using that by (simp add: proceedToStep_def can)
  have accepted_step: "currentStep (snd ?r) = t \<and> storedStep (snd ?r) = Some t" if "?guard"
    using accepted [OF that] by (simp add: navigateToPage_keeps_step setCurrentStep_def)
  have differs: "currentStep st \<noteq> t" if "\<not> ?guard"
    using that by auto
  have updated: "(currentStep (snd ?r) = t \<and> storedStep (snd ?r) = Some t
      \<and> snd ?r = navigateToPage t (setCurrentStep t st)) = ?guard"
    using accepted accepted_step rejected differs by metis
  have page: "\<exists>page. pageMap t = Some page \<and> href (snd ?r) = Str page"
    if "?guard" and "t \<in> set stepOrder"
  proof -
    from pageMap_of_step [OF that(2)] obtain page
      where p: "js_get pageMap t = Own page" "page \<noteq> []" by blast
    then have "pageMap t = Some page"
      by (auto simp: js_get_def split: option.splits if_splits)
    moreover have "href (snd ?r) = Str page"
      using accepted [OF that(1)] p by (simp add: navigateToPage_def)
    ultimately show ?thesis by blast
  qed
  show ?thesis
    unfolding Let_def using ret updated page rejected by blast
qed

theorem proceedToStep_guarded_witness:
  "fst (proceedToStep ''consent_form'' (newStudyFlow None None ''QMUL_1_a'' ''t0'' (Str ''experiment_portal.html''))) = False
   \<and> currentStep (snd (proceedToStep ''consent_form'' (newStudyFlow None None ''QMUL_1_a'' ''t0'' (Str ''experiment_portal.html'')))) = ''portal''
   \<and> storedStep (snd (proceedToStep ''consent_form'' (newStudyFlow None None ''QMUL_1_a'' ''t0'' (Str ''experiment_portal.html'')))) = None
   \<and> fst (proceedToStep ''participant_info'' (newStudyFlow None None ''QMUL_1_a'' ''t0'' (Str ''experiment_portal.html''))) = True
   \<and> storedStep (snd (proceedToStep ''participant_info'' (newStudyFlow None None ''QMUL_1_a'' ''t0'' (Str ''experiment_portal.html'')))) = Some ''participant_info''
   \<and> href (snd (proceedToStep ''participant_info'' (newStudyFlow None None ''QMUL_1_a'' ''t0'' (Str ''experiment_portal.html'')))) = Str ''participant_info.html''"
proof -
  let ?st = "newStudyFlow None None ''QMUL_1_a'' ''t0'' (Str ''experiment_portal.html'')"
  have cur: "currentStep ?st = ''portal''" "storedStep ?st = None"
    by (simp_all add: newStudyFlow_def getCurrentStep_def)
  have pm: "pageMap ''participant_info'' = Some ''participant_info.html''"
    by (simp add: pageMap_def literal_def)
  have mem: "''participant_info'' \<in> set stepOrder"
    by (simp add: stepOrder_def)
  show ?thesis
    using proceedToStep_guarded [of "''consent_form''" ?st]
      proceedToStep_guarded [of "''participant_info''" ?st]
    by (auto simp: Let_def cur indexOf_stepOrder pm mem)
qed


section \<open>Properties of the forms and of the export\<close>

lemma validateForm_consent_unchecked:
  assumes "studyForm frm = ''consent''" and "\<not> list_all checked (formCheckboxes frm)"
  shows "\<exists>frm1. validateForm frm st = (False, frm1, showAlert AgreeToAllTerms ''warning'' st)"
  using assms by (simp add: validateForm_def Let_def)

text \<open>
  C2.  \<^verbatim>\<open>updateConsentStatus\<close> sets the disabled flag of the consent submit button
  (when the page has one) to true exactly when some checkbox of class
  \<^verbatim>\<open>consent-checkbox\<close> is unchecked.  \<^verbatim>\<open>validateForm\<close> returns false for a form
  whose \<^verbatim>\<open>data-study-form\<close> is \<^verbatim>\<open>consent\<close> whenever one of its consent checkboxes
  is unchecked, and \<^verbatim>\<open>handleFormSubmission\<close> then only shows the alert: it saves no
  form data and does not proceed.
\<close>

theorem consent_needs_every_checkbox:
  "(consentSubmitDisabled pg \<noteq> None \<longrightarrow>
      consentSubmitDisabled (updateConsentStatus pg)
        = Some (\<exists>cb \<in> set (pageCheckboxes pg). \<not> checked cb))
   \<and> (studyForm frm = ''consent'' \<and> (\<exists>cb \<in> set (formCheckboxes frm). \<not> checked cb) \<longrightarrow>
        fst (validateForm frm st) = False
        \<and> (\<exists>frm1. handleFormSubmission frm formData t1 t2 st
               = Some (frm1, showAlert AgreeToAllTerms ''warning'' st)))"
proof -
  have button: "consentSubmitDisabled (updateConsentStatus pg)
      = Some (\<exists>cb \<in> set (pageCheckboxes pg). \<not> checked cb)"
    if "consentSubmitDisabled pg \<noteq> None"
    using that by (auto simp: updateConsentStatus_def Let_def list_all_iff)
  have rejected: "fst (validateForm frm st) = False
      \<and> (\<exists>frm1. handleFormSubmission frm formData t1 t2 st
             = Some (frm1, showAlert AgreeToAllTerms ''warning'' st))"
    if "studyForm frm = ''consent''" and "\<exists>cb \<in> set (formCheckboxes frm). \<not> checked cb"
  proof -
    from that(2) have "\<not> list_all checked (formCheckboxes frm)"
      by (simp add: list_all_iff)
    from validateForm_consent_unchecked [OF that(1) this] obtain frm1
      where "validateForm frm st = (False, frm1, showAlert AgreeToAllTerms ''warning'' st)"
      by blast
    then show ?thesis
      by (simp add: handleFormSubmission_def Let_def)
  qed
  from button rejected show ?thesis by blast
qed

theorem consent_needs_every_checkbox_witness:
  "consentSubmitDisabled
     (updateConsentStatus
        \<lparr>pageCheckboxes = [\<lparr>checked = True, checkboxItem = Some False\<rparr>,
                           \<lparr>checked = False, checkboxItem = None\<rparr>],
         consentSubmitDisabled = Some False\<rparr>) = Some True
   \<and> fst (validateForm
        \<lparr>studyForm = ''consent'', requiredFields = [],
         formCheckboxes = [\<lparr>checked = True, checkboxItem = Some False\<rparr>,
                           \<lparr>checked = False, checkboxItem = None\<rparr>]\<rparr>
        (newStudyFlow (Some ''consent_form'') None ''QMUL_1_a'' ''t0'' (Str ''consent_form.html''))) = False"
  using consent_needs_every_checkbox
    [of "\<lparr>pageCheckboxes = [\<lparr>checked = True, checkboxItem = Some False\<rparr>,
                           \<lparr>checked = False, checkboxItem = None\<rparr>],
         consentSubmitDisabled = Some False\<rparr>"
        "\<lparr>studyForm = ''consent'', requiredFields = [],
         formCheckboxes = [\<lparr>checked = True, checkboxItem = Some False\<rparr>,
                           \<lparr>checked = False, checkboxItem = None\<rparr>]\<rparr>"
        "newStudyFlow (Some ''consent_form'') None ''QMUL_1_a'' ''t0'' (Str ''consent_form.html'')"
        Map.empty "''t1''" "''t2''"]
  by simp

lemma showAlert_keeps_data:
  "participantData (showAlert m ty st) = participantData st"
  "storedData (showAlert m ty st) = storedData st"
  "storedStep (showAlert m ty st) = storedStep st"
  "currentStep (showAlert m ty st) = currentStep st"
  by (simp_all add: showAlert_def)

lemma submitDataToServer_request:
  "fst (submitDataToServer apiBase nav net st)
     = \<lparr>url = apiBase @ ''/submit'', httpMethod = ''POST'',
        body = prepareExportData nav (participantData st)\<rparr>"
  by (simp add: submitDataToServer_def Let_def split: fetch_result.splits)

lemma submitDataToServer_keeps_data:
  "participantData (snd (snd (submitDataToServer apiBase nav net st))) = participantData st"
  "storedData (snd (snd (submitDataToServer apiBase nav net st))) = storedData st"
  by (simp_all add: submitDataToServer_def Let_def showAlert_keeps_data split: fetch_result.splits)

lemma submitDataToServer_fails:
  assumes "fetchWithAbort 15000 net = Rejected e
           \<or> (\<exists>r. fetchWithAbort 15000 net = Resolved r \<and> \<not> ok r)"
  shows "fst (snd (submitDataToServer apiBase nav net st)) = False"
  using assms by (auto simp: submitDataToServer_def Let_def)

text \<open>
  C6.  Saving the questionnaire form data sets \<^verbatim>\<open>completed\<close>, records the end time,
  registers \<^verbatim>\<open>submitDataToServer\<close> to run one second later and writes the participant
  data to \<^verbatim>\<open>localStorage\<close>.  The submission then posts the export prepared from the
  saved data to \<^verbatim>\<open>API_BASE + '/submit'\<close>.  When the response is not ok, or when no
  response has come within 15000 milliseconds so that the request is aborted, it
  returns false; in every case it leaves the participant data, in memory and in
  \<^verbatim>\<open>localStorage\<close>, as they were.
\<close>

theorem questionnaire_saved_then_submitted:
  "(let st1 = saveFormData ''questionnaire'' formData t1 t2 st;
        (req, result, st2) = submitDataToServer apiBase nav net st1
    in completed (participantData st1)
     \<and> endTime (participantData st1) = Some t2
     \<and> storedData st1 = Some (participantData st1)
     \<and> timeouts st1 = timeouts st @ [(1000, SubmitDataToServer)]
     \<and> url req = apiBase @ ''/submit''
     \<and> httpMethod req = ''POST''
     \<and> body req = prepareExportData nav (participantData st1)
     \<and> storedData st2 = storedData st1
     \<and> participantData st2 = participantData st1
     \<and> ((\<exists>ms r. net = Replies ms r \<and> (\<not> ok r \<or> 15000 \<le> ms)) \<or> net = Silent
          \<longrightarrow> result = False))"
proof -
  let ?st1 = "saveFormData ''questionnaire'' formData t1 t2 st"
  let ?sub = "submitDataToServer apiBase nav net ?st1"
  have saved: "completed (participantData ?st1)" "endTime (participantData ?st1) = Some t2"
    "storedData ?st1 = Some (participantData ?st1)"
    "timeouts ?st1 = timeouts st @ [(1000, SubmitDataToServer)]"
    by (simp_all add: saveFormData_def saveParticipantData_def Let_def)
  have failing: "fst (snd ?sub) = False"
    if "(\<exists>ms r. net = Replies ms r \<and> (\<not> ok r \<or> 15000 \<le> ms)) \<or> net = Silent"
  proof (rule submitDataToServer_fails)
    from that show "fetchWithAbort 15000 net = Rejected AbortError
           \<or> (\<exists>r. fetchWithAbort 15000 net = Resolved r \<and> \<not> ok r)"
      by (auto simp: fetchWithAbort_def)
  qed
  have req: "fst ?sub = \<lparr>url = apiBase @ ''/submit'', httpMethod = ''POST'',
        body = prepareExportData nav (participantData ?st1)\<rparr>"
    by (rule submitDataToServer_request)
  show ?thesis
    unfolding Let_def split_beta
    using saved failing req submitDataToServer_keeps_data [of apiBase nav net ?st1]
    by simp
qed

theorem questionnaire_saved_then_submitted_witness:
  "fst (snd (submitDataToServer ''https://h'' \<lparr>userAgent = ''ua'', language = ''en'', platform = ''p''\<rparr>
       (Replies 20 \<lparr>ok = False, httpStatus = 500, bodyIsJson = False\<rparr>)
       (saveFormData ''questionnaire'' [''q1'' \<mapsto> JStr ''5''] ''t1'' ''t2''
          (newStudyFlow (Some ''questionnaire'') None ''QMUL_1_a'' ''t0'' (Str ''questionnaire.html''))))) = False
   \<and> fst (snd (submitDataToServer ''https://h'' \<lparr>userAgent = ''ua'', language = ''en'', platform = ''p''\<rparr>
       Silent
       (saveFormData ''questionnaire'' [''q1'' \<mapsto> JStr ''5''] ''t1'' ''t2''
          (newStudyFlow (Some ''questionnaire'') None ''QMUL_1_a'' ''t0'' (Str ''questionnaire.html''))))) = False"
  using questionnaire_saved_then_submitted
    [of "[''q1'' \<mapsto> JStr ''5'']" "''t1''" "''t2''"
        "newStudyFlow (Some ''questionnaire'') None ''QMUL_1_a'' ''t0'' (Str ''questionnaire.html'')"
        "''https://h''" "\<lparr>userAgent = ''ua'', language = ''en'', platform = ''p''\<rparr>"
        "Replies 20 \<lparr>ok = False, httpStatus = 500, bodyIsJson = False\<rparr>"]
    questionnaire_saved_then_submitted
    [of "[''q1'' \<mapsto> JStr ''5'']" "''t1''" "''t2''"
        "newStudyFlow (Some ''questionnaire'') None ''QMUL_1_a'' ''t0'' (Str ''questionnaire.html'')"
        "''https://h''" "\<lparr>userAgent = ''ua'', language = ''en'', platform = ''p''\<rparr>"
        Silent]
  by (simp add: Let_def split_beta)

text \<open>
  C10.  The export reads the participant information only at \<^verbatim>\<open>ageGroup\<close>,
  \<^verbatim>\<open>gender\<close> and \<^verbatim>\<open>digitalHealthExperience\<close>: two participant records that agree on
  these three fields and on everything outside the participant information have the
  same export, whatever else the participant information holds.
\<close>

theorem export_reads_three_info_fields:
  assumes "info1 ''ageGroup'' = info2 ''ageGroup''"
    and "info1 ''gender'' = info2 ''gender''"
    and "info1 ''digitalHealthExperience'' = info2 ''digitalHealthExperience''"
  shows "prepareExportData nav (pd\<lparr>participantInfo := info1\<rparr>)
       = prepareExportData nav (pd\<lparr>participantInfo := info2\<rparr>)"
  using assms by (simp add: prepareExportData_def)

theorem export_reads_three_info_fields_witness:
  "prepareExportData \<lparr>userAgent = ''ua'', language = ''en'', platform = ''p''\<rparr>
     ((newParticipantData ''QMUL_1_a'' ''t0'')
        \<lparr>participantInfo := [''ageGroup'' \<mapsto> JStr ''25-34'', ''fullName'' \<mapsto> JStr ''Ann'']\<rparr>)
   = prepareExportData \<lparr>userAgent = ''ua'', language = ''en'', platform = ''p''\<rparr>
     ((newParticipantData ''QMUL_1_a'' ''t0'')
        \<lparr>participantInfo := [''ageGroup'' \<mapsto> JStr ''25-34'', ''fullName'' \<mapsto> JStr ''Bob'',
                             ''email'' \<mapsto> JStr ''b@x'']\<rparr>)
   \<and> [''ageGroup'' \<mapsto> JStr ''25-34'', ''fullName'' \<mapsto> JStr ''Ann''] ''fullName''
       \<noteq> [''ageGroup'' \<mapsto> JStr ''25-34'', ''fullName'' \<mapsto> JStr ''Bob'',
          ''email'' \<mapsto> JStr ''b@x''] ''fullName''"
  using export_reads_three_info_fields
    [of "[''ageGroup'' \<mapsto> JStr ''25-34'', ''fullName'' \<mapsto> JStr ''Ann'']"
        "[''ageGroup'' \<mapsto> JStr ''25-34'', ''fullName'' \<mapsto> JStr ''Bob'', ''email'' \<mapsto> JStr ''b@x'']"
        "\<lparr>userAgent = ''ua'', language = ''en'', platform = ''p''\<rparr>"
        "newParticipantData ''QMUL_1_a'' ''t0''"]
  by simp


section \<open>Properties of the mock backend\<close>

lemma stepResponse_status: "apiStatus (stepResponse n) = nthStatus n"
  by (simp add: stepResponse_def nthStatus_def)

lemma session_status_other:
  "i \<noteq> sid \<Longrightarrow> snd (session_status i db) sid = db sid"
  by (simp add: session_status_def js_get_def split: option.splits)

lemma create_session_other:
  "fst (create_session now db) \<noteq> sid \<Longrightarrow> snd (create_session now db) sid = db sid"
  by (simp add: create_session_def Let_def)

lemma create_session_id: "fst (create_session now db) = fst (create_session now db')"
  by (simp add: create_session_def Let_def)

lemma map_upt_shift:
  "map g [Suc 0 ..< Suc (Suc m)] = g (Suc 0) # map (\<lambda>n. g (Suc n)) [Suc 0 ..< Suc m]"
proof -
  have "[Suc 0 ..< Suc (Suc m)] = Suc 0 # map Suc [Suc 0 ..< Suc m]"
    by (simp add: map_Suc_upt upt_conv_Cons del: upt_Suc)
  then show ?thesis by (simp add: comp_def del: upt_Suc)
qed

lemma statusesFor_from:
  assumes "db sid = Some k"
    and "\<forall>now. CreateSession now \<in> set calls \<longrightarrow> fst (create_session now Map.empty) \<noteq> sid"
  shows "statusesFor sid calls db
       = map (\<lambda>n. nthStatus (k + n)) [1 ..< Suc (count_list calls (SessionStatus sid))]"
  using assms
proof (induction calls arbitrary: db k)
  case Nil
  then show ?case by simp
next
  case (Cons c calls)
  have later: "\<forall>now. CreateSession now \<in> set calls \<longrightarrow> fst (create_session now Map.empty) \<noteq> sid"
    using Cons.prems(2) by simp
  show ?case
  proof (cases c)
    case (CreateSession now)
    with Cons.prems(2) have "fst (create_session now Map.empty) \<noteq> sid" by simp
    then have ne: "fst (create_session now db) \<noteq> sid"
      using create_session_id [of now db Map.empty] by simp
    have "snd (create_session now db) sid = Some k"
      using create_session_other [OF ne] Cons.prems(1) by simp
    then have "statusesFor sid calls (snd (create_session now db))
        = map (\<lambda>n. nthStatus (k + n)) [1 ..< Suc (count_list calls (SessionStatus sid))]"
      using later by (rule Cons.IH)
    with CreateSession show ?thesis by simp
  next
    case (SessionStatus i)
    show ?thesis
    proof (cases "i = sid")
      case True
      have st: "session_status sid db = (stepResponse (k + 1), db(sid \<mapsto> k + 1))"
        using Cons.prems(1) by (simp add: session_status_def js_get_def)
      have "(db(sid \<mapsto> k + 1)) sid = Some (k + 1)" by simp
      then have "statusesFor sid calls (db(sid \<mapsto> k + 1))
          = map (\<lambda>n. nthStatus (k + 1 + n)) [1 ..< Suc (count_list calls (SessionStatus sid))]"
        using later by (rule Cons.IH)
      then show ?thesis
        using SessionStatus True st
        by (simp add: stepResponse_status map_upt_shift [of "\<lambda>n. nthStatus (k + n)"] del: upt_Suc)
    next
      case False
      have "snd (session_status i db) sid = Some k"
        using session_status_other [OF False] Cons.prems(1) by simp
      then have "statusesFor sid calls (snd (session_status i db))
          = map (\<lambda>n. nthStatus (k + n)) [1 ..< Suc (count_list calls (SessionStatus sid))]"
        using later by (rule Cons.IH)
      with SessionStatus False show ?thesis
        by (simp add: split_beta)
    qed
  qed
qed

lemma session_id_not_inherited:
  "''mock-session-'' @ s \<notin> set objectPrototypeNames"
  by (simp add: objectPrototypeNames_def)

text \<open>
  C8 (as the code has it).  The mock backend is a step machine per session.  After
  \<^verbatim>\<open>create_session\<close> has returned a session id, and as long as no later
  \<^verbatim>\<open>create_session\<close> returns the same id, the n-th call of \<^verbatim>\<open>session_status\<close> with
  that id answers \<^verbatim>\<open>AC_COMPLETE\<close>, \<^verbatim>\<open>KG_COMPLETE\<close>, \<^verbatim>\<open>ISO_PRINCIPLE_READY\<close>,
  \<^verbatim>\<open>VIDEO_READY\<close> for n = 1, 2, 3, 4 and \<^verbatim>\<open>PENDING\<close> for every larger n, whatever
  calls for other sessions come in between.  A call with an id at which the read of
  the database is \<^verbatim>\<open>undefined\<close> answers \<^verbatim>\<open>ERROR\<close> and leaves the database as it
  was; this is the case for every id of the form \<^verbatim>\<open>mock-session-...\<close>, the only form
  \<^verbatim>\<open>create_session\<close> issues, that has no session.
\<close>

theorem mock_step_machine:
  "(let (sid, db1) = create_session now db;
        answers = statusesFor sid calls db1
    in (\<forall>t. CreateSession t \<in> set calls \<longrightarrow> fst (create_session t db) \<noteq> sid) \<longrightarrow>
       length answers = count_list calls (SessionStatus sid)
       \<and> (\<forall>n. 1 \<le> n \<and> n \<le> length answers \<longrightarrow>
              answers ! (n - 1)
                = (if n = 1 then ''AC_COMPLETE'' else if n = 2 then ''KG_COMPLETE''
                   else if n = 3 then ''ISO_PRINCIPLE_READY''
                   else if n = 4 then ''VIDEO_READY'' else ''PENDING'')))
   \<and> (js_get db unknown = Undefined \<longrightarrow>
        apiStatus (fst (session_status unknown db)) = ''ERROR''
        \<and> snd (session_status unknown db) = db)
   \<and> (db (''mock-session-'' @ s) = None \<longrightarrow>
        apiStatus (fst (session_status (''mock-session-'' @ s) db)) = ''ERROR''
        \<and> snd (session_status (''mock-session-'' @ s) db) = db)"
proof -
  obtain sid db1 where c: "create_session now db = (sid, db1)"
    by (cases "create_session now db")
  have fresh: "db1 sid = Some 0"
    using c by (auto simp: create_session_def Let_def)
  have machine: "length (statusesFor sid calls db1) = count_list calls (SessionStatus sid)
       \<and> (\<forall>n. 1 \<le> n \<and> n \<le> length (statusesFor sid calls db1) \<longrightarrow>
              statusesFor sid calls db1 ! (n - 1) = nthStatus n)"
    if "\<forall>t. CreateSession t \<in> set calls \<longrightarrow> fst (create_session t db) \<noteq> sid"
  proof -
    from that have "\<forall>t. CreateSession t \<in> set calls \<longrightarrow> fst (create_session t Map.empty) \<noteq> sid"
      using create_session_id [of _ db Map.empty] by simp
    with fresh statusesFor_from [of db1 sid 0 calls]
    have eq: "statusesFor sid calls db1
        = map nthStatus [1 ..< Suc (count_list calls (SessionStatus sid))]"
      by simp
    show ?thesis
      unfolding eq by (auto simp del: upt_Suc)
  qed
  have unknown: "apiStatus (fst (session_status unknown db)) = ''ERROR''
        \<and> snd (session_status unknown db) = db"
    if "js_get db unknown = Undefined"
    using that by (simp add: session_status_def)
  have issued: "apiStatus (fst (session_status (''mock-session-'' @ s) db)) = ''ERROR''
        \<and> snd (session_status (''mock-session-'' @ s) db) = db"
    if "db (''mock-session-'' @ s) = None"
    using that session_id_not_inherited [of s]
    by (simp add: session_status_def js_get_def del: append.simps)
  show ?thesis
    using machine unknown issued by (simp add: c nthStatus_def del: append.simps)
qed


lemma decimal_5: "decimal 5 = ''5''"
  by code_simp

lemma decimal_6: "decimal 6 = ''6''"
  by code_simp

theorem mock_step_machine_witness:
  "(let answers = statusesFor ''mock-session-5''
         [SessionStatus ''mock-session-5'', SessionStatus ''mock-session-9'', CreateSession 6,
          SessionStatus ''mock-session-5'', SessionStatus ''mock-session-6'',
          SessionStatus ''mock-session-5'', SessionStatus ''mock-session-5'',
          SessionStatus ''mock-session-5'']
         (snd (create_session 5 Map.empty))
    in length answers = 5
     \<and> answers ! 0 = ''AC_COMPLETE'' \<and> answers ! 1 = ''KG_COMPLETE''
     \<and> answers ! 2 = ''ISO_PRINCIPLE_READY'' \<and> answers ! 3 = ''VIDEO_READY''
     \<and> answers ! 4 = ''PENDING'')
   \<and> apiStatus (fst (session_status ''mock-session-9'' Map.empty)) = ''ERROR''"
proof -
  define calls where "calls =
     [SessionStatus ''mock-session-5'', SessionStatus ''mock-session-9'', CreateSession 6,
      SessionStatus ''mock-session-5'', SessionStatus ''mock-session-6'',
      SessionStatus ''mock-session-5'', SessionStatus ''mock-session-5'',
      SessionStatus ''mock-session-5'']"
  define answers where "answers = statusesFor ''mock-session-5'' calls (snd (create_session 5 Map.empty))"
  have c5: "create_session 5 Map.empty = (''mock-session-5'', [''mock-session-5'' \<mapsto> 0])"
    by (simp add: create_session_def decimal_5 Let_def)
  have c6: "fst (create_session 6 Map.empty) = ''mock-session-6''"
    by (simp add: create_session_def decimal_6 Let_def)
  have absent: "js_get (Map.empty :: mock_database) ''mock-session-9'' = Undefined"
    by (simp add: js_get_def objectPrototypeNames_def)
  have others: "\<forall>t. CreateSession t \<in> set calls \<longrightarrow> fst (create_session t Map.empty) \<noteq> ''mock-session-5''"
    by (simp add: calls_def c6)
  have count: "count_list calls (SessionStatus ''mock-session-5'') = 5"
    by (simp add: calls_def)
  from mock_step_machine [of 5 Map.empty calls "''mock-session-9''"] others absent count
  have len: "length answers = 5"
    and nth: "\<forall>n. 1 \<le> n \<and> n \<le> length answers \<longrightarrow>
              answers ! (n - 1)
                = (if n = 1 then ''AC_COMPLETE'' else if n = 2 then ''KG_COMPLETE''
                   else if n = 3 then ''ISO_PRINCIPLE_READY''
                   else if n = 4 then ''VIDEO_READY'' else ''PENDING'')"
    and e: "apiStatus (fst (session_status ''mock-session-9'' Map.empty)) = ''ERROR''"
    by (simp_all add: c5 answers_def Let_def)
  have "answers ! 0 = ''AC_COMPLETE''" using nth [rule_format, of 1] len by simp
  moreover have "answers ! 1 = ''KG_COMPLETE''" using nth [rule_format, of 2] len by simp
  moreover have "answers ! 2 = ''ISO_PRINCIPLE_READY''" using nth [rule_format, of 3] len by simp
  moreover have "answers ! 3 = ''VIDEO_READY''" using nth [rule_format, of 4] len by simp
  moreover have "answers ! 4 = ''PENDING''" using nth [rule_format, of 5] len by simp
  ultimately show ?thesis
    using len e unfolding answers_def calls_def Let_def by blast
qed

text \<open>
  C8 as stated fails in two places.  The session id is \<^verbatim>\<open>mock-session-\<close> followed by
  the time in milliseconds, so a second \<^verbatim>\<open>create_session\<close> in the same millisecond
  returns the same id and sets its step back to 0: the third call of
  \<^verbatim>\<open>session_status\<close> after the first creation then answers \<^verbatim>\<open>AC_COMPLETE\<close>, not
  \<^verbatim>\<open>ISO_PRINCIPLE_READY\<close>.  And the id \<^verbatim>\<open>toString\<close>, which no session has, reads a
  function inherited from \<^verbatim>\<open>Object.prototype\<close>: the answer is \<^verbatim>\<open>PENDING\<close>, not
  \<^verbatim>\<open>ERROR\<close>.
\<close>

theorem session_recreated_counterexample:
  "fst (create_session 5 Map.empty) = ''mock-session-5''
   \<and> statusesFor ''mock-session-5''
        [SessionStatus ''mock-session-5'', SessionStatus ''mock-session-5'', CreateSession 5,
         SessionStatus ''mock-session-5'']
        (snd (create_session 5 Map.empty))
       = [''AC_COMPLETE'', ''KG_COMPLETE'', ''AC_COMPLETE'']
   \<and> nthStatus 3 = ''ISO_PRINCIPLE_READY''
   \<and> (Map.empty :: mock_database) ''toString'' = None
   \<and> apiStatus (fst (session_status ''toString'' Map.empty)) = ''PENDING''"
  by (simp add: create_session_def session_status_def stepResponse_def js_get_def
      objectPrototypeNames_def decimal_5 nthStatus_def Let_def)


section \<open>Properties of the string table\<close>

lemma langResources_en_nonempty: "list_all (\<lambda>(k, text). text \<noteq> []) langResources_en"
  by (simp add: langResources_en_def)

lemma literal_en_nonempty:
  assumes "literal langResources_en key = Some text"
  shows "text \<noteq> []"
proof -
  from assms have "(key, text) \<in> set (rev langResources_en)"
    unfolding literal_def by (rule map_of_SomeD)
  with langResources_en_nonempty show ?thesis
    by (auto simp: list_all_iff)
qed

text \<open>
  C7.  For every key, \<^verbatim>\<open>getText\<close> returns the value of \<^verbatim>\<open>langResources.en[key]\<close> when
  that read yields something (an entry of the English table, or a value a name of
  \<^verbatim>\<open>Object.prototype\<close> inherits) and the key itself otherwise.  The result depends on
  neither the Chinese table nor any language setting of the page: the function has
  the key as its only input.
\<close>

theorem getText_english_entry_or_key:
  "getText zh key =
     (case js_get (literal langResources_en) key of
        Own text \<Rightarrow> Str text
      | Inherited n \<Rightarrow> Proto n
      | Undefined \<Rightarrow> Str key)"
proof (cases "js_get (literal langResources_en) key")
  case (Own entry)
  then have "literal langResources_en key = Some entry"
    by (auto simp: js_get_def split: option.splits if_splits)
  then have "entry \<noteq> []" by (rule literal_en_nonempty)
  with Own show ?thesis by (simp add: getText_def langResources_def)
next
  case (Inherited n)
  then show ?thesis by (simp add: getText_def langResources_def)
next
  case Undefined
  then show ?thesis by (simp add: getText_def langResources_def)
qed

lemma langResources_en_reads:
  "js_get (literal langResources_en) ''analyzing'' = Own ''Analyzing...''"
  "js_get (literal langResources_en) ''kg_param_tempo'' = Undefined"
  "js_get (literal langResources_en) ''toString'' = Inherited ''toString''"
  by code_simp+

theorem getText_english_entry_or_key_witness:
  "getText Map.empty ''analyzing'' = Str ''Analyzing...''
   \<and> getText Map.empty ''kg_param_tempo'' = Str ''kg_param_tempo''
   \<and> getText Map.empty ''toString'' = Proto ''toString''"
  using getText_english_entry_or_key [of Map.empty "''analyzing''"]
    getText_english_entry_or_key [of Map.empty "''kg_param_tempo''"]
    getText_english_entry_or_key [of Map.empty "''toString''"]
  by (simp add: langResources_en_reads)


section \<open>Properties of the audio fade\<close>

lemma rounding_up:
  assumes "rounding rnd" and "rnd v = v" and "0 \<le> q"
  shows "v \<le> rnd (v + q)"
proof -
  from assms(1) have "mono rnd" by (simp add: rounding_def)
  moreover have "v \<le> v + q" using assms(3) by simp
  ultimately have "rnd v \<le> rnd (v + q)" by (rule monoD)
  with assms(2) show ?thesis by simp
qed

lemma rounding_down:
  assumes "rounding rnd" and "rnd v = v" and "q \<le> 0"
  shows "rnd (v + q) \<le> v"
proof -
  from assms(1) have "mono rnd" by (simp add: rounding_def)
  moreover have "v + q \<le> v" using assms(3) by simp
  ultimately have "rnd (v + q) \<le> rnd v" by (rule monoD)
  with assms(2) show ?thesis by simp
qed

lemma fadeTick_finite:
  assumes r: "rounding rnd" and rep: "rnd (volume el) = volume el"
    and range: "0 \<le> volume el" "volume el \<le> 1" "0 \<le> e" "e \<le> 1"
    and f: "fadeInterval el = Some \<lparr>fadeEnd = e, fadeStep = Num q\<rparr>"
  shows "fadeTick rnd el =
     (if (0 < q \<and> e \<le> rnd (volume el + q)) \<or> (q < 0 \<and> rnd (volume el + q) \<le> e)
      then el\<lparr>fadeInterval := None, volume := e\<rparr>
      else el\<lparr>volume := rnd (volume el + q)\<rparr>)"
    and "\<not> ((0 < q \<and> e \<le> rnd (volume el + q)) \<or> (q < 0 \<and> rnd (volume el + q) \<le> e))
       \<Longrightarrow> towards (volume el) (rnd (volume el + q)) e"
proof -
  let ?n = "rnd (volume el + q)"
  let ?c = "(0 < q \<and> e \<le> ?n) \<or> (q < 0 \<and> ?n \<le> e)"
  have tw: "towards (volume el) ?n e" if nc: "\<not> ?c"
  proof -
    consider "0 < q" | "q < 0" | "q = 0" by linarith
    then show ?thesis
    proof cases
      case 1
      with nc have "?n < e" by auto
      moreover have "volume el \<le> ?n" using rounding_up [OF r rep] 1 by simp
      ultimately show ?thesis by (simp add: towards_def)
    next
      case 2
      with nc have "e < ?n" by auto
      moreover have "?n \<le> volume el" using rounding_down [OF r rep] 2 by simp
      ultimately show ?thesis by (simp add: towards_def)
    next
      case 3
      then show ?thesis using rep by (auto simp: towards_def)
    qed
  qed
  then show "\<not> ?c \<Longrightarrow> towards (volume el) ?n e" .
  have inrange: "0 \<le> ?n \<and> ?n \<le> 1" if "\<not> ?c"
    using tw [OF that] range unfolding towards_def by linarith
  show "fadeTick rnd el = (if ?c then el\<lparr>fadeInterval := None, volume := e\<rparr> else el\<lparr>volume := ?n\<rparr>)"
  proof (cases ?c)
    case True
    then show ?thesis
      using f range by (simp add: fadeTick_def Let_def setVolume_def)
  next
    case False
    then show ?thesis
      using f range inrange [OF False] by (auto simp: fadeTick_def Let_def setVolume_def)
  qed
qed

lemma fadeTick_infinite:
  assumes range: "0 \<le> e" "e \<le> 1"
    and f: "fadeInterval el = Some \<lparr>fadeEnd = e, fadeStep = s\<rparr>"
    and s: "s = PosInf \<or> s = NegInf"
  shows "fadeTick rnd el = el\<lparr>fadeInterval := None, volume := e\<rparr>"
  using assms by (auto simp: fadeTick_def Let_def setVolume_def)

lemma fadeTick_nan:
  assumes f: "fadeInterval el = Some \<lparr>fadeEnd = e, fadeStep = NaN\<rparr>"
  shows "fadeTick rnd el = el"
  using assms by (simp add: fadeTick_def Let_def setVolume_def)


lemma fadeTick_properties:
  assumes r: "rounding rnd" and rep: "rnd (volume el) = volume el"
    and range: "0 \<le> volume el" "volume el \<le> 1" "0 \<le> e" "e \<le> 1"
    and f: "fadeInterval el = Some \<lparr>fadeEnd = e, fadeStep = s\<rparr>"
  shows "towards (volume el) (volume (fadeTick rnd el)) e
      \<and> 0 \<le> volume (fadeTick rnd el) \<and> volume (fadeTick rnd el) \<le> 1
      \<and> (fadeInterval (fadeTick rnd el) = None \<longrightarrow> volume (fadeTick rnd el) = e)
      \<and> (fadeInterval (fadeTick rnd el) \<noteq> None \<longrightarrow>
            fadeInterval (fadeTick rnd el) = fadeInterval el
            \<and> rnd (volume (fadeTick rnd el)) = volume (fadeTick rnd el)
            \<and> (\<forall>q. s = Num q \<longrightarrow> volume (fadeTick rnd el) = rnd (volume el + q)))"
proof -
  have idem: "rnd (rnd x) = rnd x" for x
    using r by (simp add: rounding_def)
  have self: "towards (volume el) (volume el) e" and final: "towards (volume el) e e"
    by (auto simp: towards_def)
  show ?thesis
  proof (cases s)
    case (Num q)
    let ?c = "(0 < q \<and> e \<le> rnd (volume el + q)) \<or> (q < 0 \<and> rnd (volume el + q) \<le> e)"
    note t = fadeTick_finite [OF r rep range f [unfolded Num]]
    show ?thesis
    proof (cases ?c)
      case True
      with t(1) have "fadeTick rnd el = el\<lparr>fadeInterval := None, volume := e\<rparr>" by simp
      then show ?thesis using final range by simp
    next
      case False
      with t(1) have eq: "fadeTick rnd el = el\<lparr>volume := rnd (volume el + q)\<rparr>" by simp
      have tw: "towards (volume el) (rnd (volume el + q)) e" using t(2) False by blast
      then have "0 \<le> rnd (volume el + q) \<and> rnd (volume el + q) \<le> 1"
        using range unfolding towards_def by linarith
      then show ?thesis using eq tw idem f Num by simp
    qed
  next
    case PosInf
    with fadeTick_infinite [OF range(3,4) f] have "fadeTick rnd el = el\<lparr>fadeInterval := None, volume := e\<rparr>"
      by simp
    then show ?thesis using final range PosInf by simp
  next
    case NegInf
    with fadeTick_infinite [OF range(3,4) f] have "fadeTick rnd el = el\<lparr>fadeInterval := None, volume := e\<rparr>"
      by simp
    then show ?thesis using final range NegInf by simp
  next
    case NaN
    with fadeTick_nan f have "fadeTick rnd el = el" by simp
    then show ?thesis using self rep range f NaN by simp
  qed
qed

lemma towards_trans: "towards a b e \<Longrightarrow> towards b c e \<Longrightarrow> towards a c e"
  unfolding towards_def by linarith

lemma fading_fadeTick:
  assumes r: "rounding rnd" and range: "0 \<le> e" "e \<le> 1" and inv: "fading rnd v0 e s el"
  shows "fading rnd v0 e s (fadeTick rnd el)"
proof (cases "fadeInterval el")
  case None
  then have "fadeTick rnd el = el" by (simp add: fadeTick_def)
  with inv show ?thesis by simp
next
  case (Some f)
  with inv have f: "fadeInterval el = Some \<lparr>fadeEnd = e, fadeStep = s\<rparr>"
    and rep: "rnd (volume el) = volume el"
    and v: "0 \<le> volume el" "volume el \<le> 1" and tw: "towards v0 (volume el) e"
    by (auto simp: fading_def)
  note p = fadeTick_properties [OF r rep v range f]
  from p tw have "towards v0 (volume (fadeTick rnd el)) e"
    by (blast intro: towards_trans)
  with p f show ?thesis
    unfolding fading_def by (cases "fadeInterval (fadeTick rnd el)") auto
qed

lemma fading_funpow:
  assumes r: "rounding rnd" and range: "0 \<le> e" "e \<le> 1" and inv: "fading rnd v0 e s el"
  shows "fading rnd v0 e s ((fadeTick rnd ^^ n) el)"
  by (induction n) (simp_all add: inv fading_fadeTick [OF r range])

lemma fading_fadeAudio:
  assumes "rnd (volume el) = volume el" and "0 \<le> volume el" "volume el \<le> 1" and "volume el \<noteq> e"
  shows "fading rnd (volume el) e (js_divide rnd (rnd (e - volume el)) (rnd (d / 50)))
           (fadeAudio rnd e d el)"
  using assms by (auto simp: fading_def fadeAudio_def Let_def towards_def)

lemma fadeTick_frontend_properties:
  assumes r: "rounding rnd" and rep: "rnd v = v"
    and range: "0 \<le> v" "v \<le> 1" "0 \<le> e" "e \<le> 1"
  shows "towards v (fst (fadeTick_frontend rnd \<lparr>fadeEnd = e, fadeStep = s\<rparr> v)) e
      \<and> (snd (fadeTick_frontend rnd \<lparr>fadeEnd = e, fadeStep = s\<rparr> v) \<longrightarrow>
            fst (fadeTick_frontend rnd \<lparr>fadeEnd = e, fadeStep = s\<rparr> v) = e)
      \<and> (\<not> snd (fadeTick_frontend rnd \<lparr>fadeEnd = e, fadeStep = s\<rparr> v) \<longrightarrow>
            (\<forall>q. s = Num q \<longrightarrow>
               fst (fadeTick_frontend rnd \<lparr>fadeEnd = e, fadeStep = s\<rparr> v) = rnd (v + q)))"
proof (cases s)
  case (Num q)
  let ?n = "rnd (v + q)"
  consider "0 < q" "e \<le> ?n" | "0 < q" "?n < e" | "q \<le> 0" "?n \<le> e" | "q \<le> 0" "e < ?n"
    by linarith
  then show ?thesis
  proof cases
    case 1
    then show ?thesis
      using Num range by (auto simp: fadeTick_frontend_def Let_def assignVolume_def towards_def)
  next
    case 2
    have "v \<le> ?n" using rounding_up [OF r rep] 2(1) by simp
    then show ?thesis
      using 2 Num range by (auto simp: fadeTick_frontend_def Let_def assignVolume_def towards_def)
  next
    case 3
    then show ?thesis
      using Num range by (auto simp: fadeTick_frontend_def Let_def assignVolume_def towards_def)
  next
    case 4
    have "?n \<le> v" using rounding_down [OF r rep 4(1)] .
    then show ?thesis
      using 4 Num range by (auto simp: fadeTick_frontend_def Let_def assignVolume_def towards_def)
  qed
next
  case PosInf
  then show ?thesis
    using range by (auto simp: fadeTick_frontend_def Let_def assignVolume_def towards_def)
next
  case NegInf
  then show ?thesis
    using range by (auto simp: fadeTick_frontend_def Let_def assignVolume_def towards_def)
next
  case NaN
  then show ?thesis
    using range by (auto simp: fadeTick_frontend_def Let_def assignVolume_def towards_def)
qed

lemma fadeTick_frontend_representable:
  assumes "rounding rnd" and "rnd v = v"
  shows "rnd (fst (fadeTick_frontend rnd f v)) = fst (fadeTick_frontend rnd f v)
       \<or> fst (fadeTick_frontend rnd f v) = fadeEnd f \<and> snd (fadeTick_frontend rnd f v)"
  using assms
  by (cases "fadeStep f")
    (auto simp: fadeTick_frontend_def Let_def assignVolume_def rounding_def)

lemma fading_fadeNext_frontend:
  assumes r: "rounding rnd" and range: "0 \<le> e" "e \<le> 1"
    and inv: "fading rnd v0 e s \<lparr>volume = fst p, fadeInterval = snd p\<rparr>"
  shows "fading rnd v0 e s
           \<lparr>volume = fst (fadeNext_frontend rnd p), fadeInterval = snd (fadeNext_frontend rnd p)\<rparr>"
proof (cases "snd p")
  case None
  then have "fadeNext_frontend rnd p = p" by (simp add: fadeNext_frontend_def)
  with inv show ?thesis by simp
next
  case (Some f)
  with inv have f: "f = \<lparr>fadeEnd = e, fadeStep = s\<rparr>"
    and rep: "rnd (fst p) = fst p"
    and v: "0 \<le> fst p" "fst p \<le> 1" and tw: "towards v0 (fst p) e"
    by (auto simp: fading_def)
  let ?t = "fadeTick_frontend rnd \<lparr>fadeEnd = e, fadeStep = s\<rparr> (fst p)"
  note q = fadeTick_frontend_properties [OF r rep v range, of s]
  note rp = fadeTick_frontend_representable [OF r rep, of "\<lparr>fadeEnd = e, fadeStep = s\<rparr>"]
  have nxt: "fadeNext_frontend rnd p = (fst ?t, if snd ?t then None else Some f)"
    using Some f by (simp add: fadeNext_frontend_def split_beta)
  from q tw have tw': "towards v0 (fst ?t) e"
    by (blast intro: towards_trans)
  from q v range have bounds: "0 \<le> fst ?t" "fst ?t \<le> 1"
    by (auto simp: towards_def)
  show ?thesis
  proof (cases "snd ?t")
    case True
    with q have "fst ?t = e" by simp
    with True nxt tw' bounds show ?thesis by (simp add: fading_def)
  next
    case False
    with rp have "rnd (fst ?t) = fst ?t" by simp
    with False nxt tw' bounds f show ?thesis by (simp add: fading_def)
  qed
qed

lemma fading_funpow_frontend:
  assumes r: "rounding rnd" and range: "0 \<le> e" "e \<le> 1"
    and inv: "fading rnd v0 e s \<lparr>volume = fst p, fadeInterval = snd p\<rparr>"
  shows "fading rnd v0 e s
           \<lparr>volume = fst ((fadeNext_frontend rnd ^^ n) p),
            fadeInterval = snd ((fadeNext_frontend rnd ^^ n) p)\<rparr>"
  by (induction n) (simp_all add: inv fading_fadeNext_frontend [OF r range])

lemma fadeNext_frontend_run:
  assumes r: "rounding rnd" and rep: "rnd v0 = v0"
    and range: "0 \<le> v0" "v0 \<le> 1" "0 \<le> e" "e \<le> 1" and ne: "v0 \<noteq> e"
  shows "fadeAudio_frontend rnd e d v0
           = Some \<lparr>fadeEnd = e, fadeStep = js_divide rnd (rnd (e - v0)) (rnd (d / 50))\<rparr>"
    and "towards (fst ((fadeNext_frontend rnd ^^ n) (fadeStart_frontend rnd e d v0)))
           (fst (fadeNext_frontend rnd ((fadeNext_frontend rnd ^^ n) (fadeStart_frontend rnd e d v0)))) e"
    and "towards v0
           (fst (fadeNext_frontend rnd ((fadeNext_frontend rnd ^^ n) (fadeStart_frontend rnd e d v0)))) e"
    and "snd (fadeNext_frontend rnd ((fadeNext_frontend rnd ^^ n) (fadeStart_frontend rnd e d v0))) = None
         \<Longrightarrow> fst (fadeNext_frontend rnd ((fadeNext_frontend rnd ^^ n) (fadeStart_frontend rnd e d v0))) = e"
    and "snd (fadeNext_frontend rnd ((fadeNext_frontend rnd ^^ n) (fadeStart_frontend rnd e d v0))) \<noteq> None
         \<Longrightarrow> snd (fadeNext_frontend rnd ((fadeNext_frontend rnd ^^ n) (fadeStart_frontend rnd e d v0)))
               = fadeAudio_frontend rnd e d v0
             \<and> (\<forall>q. js_divide rnd (rnd (e - v0)) (rnd (d / 50)) = Num q \<longrightarrow>
                   fst (fadeNext_frontend rnd ((fadeNext_frontend rnd ^^ n) (fadeStart_frontend rnd e d v0)))
                     = rnd (fst ((fadeNext_frontend rnd ^^ n) (fadeStart_frontend rnd e d v0)) + q))"
proof -
  let ?s = "js_divide rnd (rnd (e - v0)) (rnd (d / 50))"
  let ?f = "\<lparr>fadeEnd = e, fadeStep = ?s\<rparr>"
  let ?a = "(fadeNext_frontend rnd ^^ n) (fadeStart_frontend rnd e d v0)"
  show st: "fadeAudio_frontend rnd e d v0 = Some ?f"
    using ne by (simp add: fadeAudio_frontend_def Let_def)
  have inv0: "fading rnd v0 e ?s
      \<lparr>volume = fst (fadeStart_frontend rnd e d v0), fadeInterval = snd (fadeStart_frontend rnd e d v0)\<rparr>"
    using rep range st by (auto simp: fading_def fadeStart_frontend_def towards_def)
  have inv: "fading rnd v0 e ?s \<lparr>volume = fst ?a, fadeInterval = snd ?a\<rparr>"
    using r range(3,4) inv0 by (rule fading_funpow_frontend)
  have inv': "fading rnd v0 e ?s
      \<lparr>volume = fst (fadeNext_frontend rnd ?a), fadeInterval = snd (fadeNext_frontend rnd ?a)\<rparr>"
    using r range(3,4) inv by (rule fading_fadeNext_frontend)
  from inv' show "towards v0 (fst (fadeNext_frontend rnd ?a)) e"
    by (simp add: fading_def)
  from inv' show "fst (fadeNext_frontend rnd ?a) = e" if "snd (fadeNext_frontend rnd ?a) = None"
    using that by (simp add: fading_def)
  have step: "towards (fst ?a) (fst (fadeNext_frontend rnd ?a)) e
      \<and> (snd (fadeNext_frontend rnd ?a) \<noteq> None \<longrightarrow>
            snd (fadeNext_frontend rnd ?a) = Some ?f
            \<and> (\<forall>q. ?s = Num q \<longrightarrow> fst (fadeNext_frontend rnd ?a) = rnd (fst ?a + q)))"
  proof (cases "snd ?a")
    case None
    then have "fadeNext_frontend rnd ?a = ?a" by (simp add: fadeNext_frontend_def)
    moreover from None inv have "fst ?a = e" by (simp add: fading_def)
    ultimately show ?thesis using None by (simp add: towards_def)
  next
    case (Some f)
    with inv have f: "f = ?f" and rp: "rnd (fst ?a) = fst ?a"
      and v: "0 \<le> fst ?a" "fst ?a \<le> 1"
      by (auto simp: fading_def)
    note q = fadeTick_frontend_properties [OF r rp v range(3,4), of ?s]
    have nxt: "fadeNext_frontend rnd ?a
        = (fst (fadeTick_frontend rnd ?f (fst ?a)),
           if snd (fadeTick_frontend rnd ?f (fst ?a)) then None else Some ?f)"
      using Some f by (simp add: fadeNext_frontend_def split_beta)
    from q show ?thesis
      unfolding nxt by (cases "snd (fadeTick_frontend rnd ?f (fst ?a))") auto
  qed
  from step show "towards (fst ?a) (fst (fadeNext_frontend rnd ?a)) e"
    by simp
  from step st show "snd (fadeNext_frontend rnd ?a) = fadeAudio_frontend rnd e d v0
      \<and> (\<forall>q. ?s = Num q \<longrightarrow> fst (fadeNext_frontend rnd ?a) = rnd (fst ?a + q))"
    if "snd (fadeNext_frontend rnd ?a) \<noteq> None"
    using that by simp
qed

text \<open>
  C9.  Let the end volume and the element's volume be in [0, 1], the volume a
  representable number, and the arithmetic rounded monotonically.  If the starting
  volume equals the end volume, \<^verbatim>\<open>fadeAudio\<close> changes nothing and registers nothing.
  Otherwise it registers a fade to that end volume with one fixed step, and at every
  tick the volume moves toward the end volume and never past it, a tick that does not
  end the fade adds the step to the volume, and a tick that ends the fade leaves the
  volume equal to the end volume.  This holds for both versions of \<^verbatim>\<open>fadeAudio\<close>; for
  the second one also for a tick of any fade record.  With a finite step, a tick ends
  the fade exactly when the volume plus the step reaches or passes the end volume (in
  the second version a step of zero counts as a step down).
\<close>

theorem fadeAudio_moves_toward_end:
  assumes "rounding rnd" and "rnd (volume el) = volume el"
    and "0 \<le> volume el" and "volume el \<le> 1" and "0 \<le> e" and "e \<le> 1"
  shows "(volume el = e \<longrightarrow> fadeAudio rnd e d el = el)
     \<and> (volume el \<noteq> e \<longrightarrow>
          (let volumeStep = js_divide rnd (rnd (e - volume el)) (rnd (d / 50));
               started = fadeAudio rnd e d el
           in fadeInterval started = Some \<lparr>fadeEnd = e, fadeStep = volumeStep\<rparr>
            \<and> volume started = volume el
            \<and> (\<forall>n. let before = (fadeTick rnd ^^ n) started; after = fadeTick rnd before
                    in towards (volume before) (volume after) e
                     \<and> towards (volume el) (volume after) e
                     \<and> (fadeInterval after = None \<longrightarrow> volume after = e)
                     \<and> (fadeInterval after \<noteq> None \<longrightarrow>
                           fadeInterval after = fadeInterval started
                           \<and> (\<forall>q. volumeStep = Num q \<longrightarrow> volume after = rnd (volume before + q))))))
     \<and> fadeAudio_frontend rnd e d e = None
     \<and> (volume el \<noteq> e \<longrightarrow>
          (let volumeStep = js_divide rnd (rnd (e - volume el)) (rnd (d / 50));
               started = fadeStart_frontend rnd e d (volume el)
           in fadeAudio_frontend rnd e d (volume el) = Some \<lparr>fadeEnd = e, fadeStep = volumeStep\<rparr>
            \<and> started = (volume el, Some \<lparr>fadeEnd = e, fadeStep = volumeStep\<rparr>)
            \<and> (\<forall>n. let before = (fadeNext_frontend rnd ^^ n) started;
                        after = fadeNext_frontend rnd before
                    in towards (fst before) (fst after) e
                     \<and> towards (volume el) (fst after) e
                     \<and> (snd after = None \<longrightarrow> fst after = e)
                     \<and> (snd after \<noteq> None \<longrightarrow>
                           snd after = snd started
                           \<and> (\<forall>q. volumeStep = Num q \<longrightarrow> fst after = rnd (fst before + q))))))
     \<and> (let (v, cleared) = fadeTick_frontend rnd \<lparr>fadeEnd = e, fadeStep = s\<rparr> (volume el)
        in towards (volume el) v e
         \<and> (cleared \<longrightarrow> v = e)
         \<and> (\<not> cleared \<longrightarrow> (\<forall>q. s = Num q \<longrightarrow> v = rnd (volume el + q))))
     \<and> (\<forall>q. fadeInterval el = Some \<lparr>fadeEnd = e, fadeStep = Num q\<rparr> \<longrightarrow>
            (fadeInterval (fadeTick rnd el) = None)
              = ((0 < q \<and> e \<le> rnd (volume el + q)) \<or> (q < 0 \<and> rnd (volume el + q) \<le> e)))
     \<and> (\<forall>q. snd (fadeTick_frontend rnd \<lparr>fadeEnd = e, fadeStep = Num q\<rparr> (volume el))
              = ((0 < q \<and> e \<le> rnd (volume el + q)) \<or> (q \<le> 0 \<and> rnd (volume el + q) \<le> e)))"
proof -
  let ?s = "js_divide rnd (rnd (e - volume el)) (rnd (d / 50))"
  let ?started = "fadeAudio rnd e d el"
  have same: "fadeAudio rnd e d el = el" if "volume el = e"
    using that by (simp add: fadeAudio_def Let_def)
  have run: "towards (volume ((fadeTick rnd ^^ n) ?started)) (volume (fadeTick rnd ((fadeTick rnd ^^ n) ?started))) e
       \<and> towards (volume el) (volume (fadeTick rnd ((fadeTick rnd ^^ n) ?started))) e
       \<and> (fadeInterval (fadeTick rnd ((fadeTick rnd ^^ n) ?started)) = None \<longrightarrow>
            volume (fadeTick rnd ((fadeTick rnd ^^ n) ?started)) = e)
       \<and> (fadeInterval (fadeTick rnd ((fadeTick rnd ^^ n) ?started)) \<noteq> None \<longrightarrow>
            fadeInterval (fadeTick rnd ((fadeTick rnd ^^ n) ?started)) = fadeInterval ?started
            \<and> (\<forall>q. ?s = Num q \<longrightarrow>
                 volume (fadeTick rnd ((fadeTick rnd ^^ n) ?started))
                   = rnd (volume ((fadeTick rnd ^^ n) ?started) + q)))"
    if ne: "volume el \<noteq> e" for n
  proof -
    let ?a = "(fadeTick rnd ^^ n) ?started"
    have st: "fadeInterval ?started = Some \<lparr>fadeEnd = e, fadeStep = ?s\<rparr>"
      using ne by (simp add: fadeAudio_def Let_def)
    have inv0: "fading rnd (volume el) e ?s ?started"
      using assms(2,3,4) ne by (rule fading_fadeAudio)
    have inv: "fading rnd (volume el) e ?s ?a"
      using assms(1,5,6) inv0 by (rule fading_funpow)
    have inv': "fading rnd (volume el) e ?s (fadeTick rnd ?a)"
      using assms(1,5,6) inv by (rule fading_fadeTick)
    show ?thesis
    proof (cases "fadeInterval ?a")
      case None
      then have "fadeTick rnd ?a = ?a" by (simp add: fadeTick_def)
      moreover from None inv have "volume ?a = e" by (auto simp: fading_def)
      ultimately show ?thesis using None inv by (simp add: fading_def towards_def)
    next
      case (Some f)
      with inv have f: "fadeInterval ?a = Some \<lparr>fadeEnd = e, fadeStep = ?s\<rparr>"
        and rep: "rnd (volume ?a) = volume ?a"
        and v: "0 \<le> volume ?a" "volume ?a \<le> 1"
        by (auto simp: fading_def)
      note p = fadeTick_properties [OF assms(1) rep v assms(5,6) f]
      from inv' have "towards (volume el) (volume (fadeTick rnd ?a)) e"
        by (simp add: fading_def)
      with p f st show ?thesis by simp
    qed
  qed
  have st: "fadeInterval ?started = Some \<lparr>fadeEnd = e, fadeStep = ?s\<rparr> \<and> volume ?started = volume el"
    if "volume el \<noteq> e"
    using that by (simp add: fadeAudio_def Let_def)
  have frontend_same: "fadeAudio_frontend rnd e d e = None"
    by (simp add: fadeAudio_frontend_def Let_def)
  note frontend = fadeTick_frontend_properties [OF assms, of s]
  note frontend_run = fadeNext_frontend_run [OF assms, where d = d]
  have frontend_started: "fadeStart_frontend rnd e d (volume el) = (volume el, Some \<lparr>fadeEnd = e, fadeStep = ?s\<rparr>)"
    if "volume el \<noteq> e"
    using frontend_run(1) [OF that] by (simp add: fadeStart_frontend_def)
  have frontend_ticks:
    "towards (fst ((fadeNext_frontend rnd ^^ n) (fadeStart_frontend rnd e d (volume el))))
        (fst (fadeNext_frontend rnd ((fadeNext_frontend rnd ^^ n) (fadeStart_frontend rnd e d (volume el))))) e
     \<and> towards (volume el)
        (fst (fadeNext_frontend rnd ((fadeNext_frontend rnd ^^ n) (fadeStart_frontend rnd e d (volume el))))) e
     \<and> (snd (fadeNext_frontend rnd ((fadeNext_frontend rnd ^^ n) (fadeStart_frontend rnd e d (volume el)))) = None
          \<longrightarrow> fst (fadeNext_frontend rnd ((fadeNext_frontend rnd ^^ n) (fadeStart_frontend rnd e d (volume el)))) = e)
     \<and> (snd (fadeNext_frontend rnd ((fadeNext_frontend rnd ^^ n) (fadeStart_frontend rnd e d (volume el)))) \<noteq> None
          \<longrightarrow> snd (fadeNext_frontend rnd ((fadeNext_frontend rnd ^^ n) (fadeStart_frontend rnd e d (volume el))))
                = snd (fadeStart_frontend rnd e d (volume el))
              \<and> (\<forall>q. ?s = Num q \<longrightarrow>
                   fst (fadeNext_frontend rnd ((fadeNext_frontend rnd ^^ n) (fadeStart_frontend rnd e d (volume el))))
                     = rnd (fst ((fadeNext_frontend rnd ^^ n) (fadeStart_frontend rnd e d (volume el))) + q)))"
    if ne: "volume el \<noteq> e" for n
    using frontend_run(2) [OF ne, of n] frontend_run(3) [OF ne, of n]
      frontend_run(4) [OF ne, of n] frontend_run(5) [OF ne, of n]
    by (auto simp: fadeStart_frontend_def)
  have v13: "volume el \<noteq> e \<longrightarrow>
      fadeInterval ?started = Some \<lparr>fadeEnd = e, fadeStep = ?s\<rparr> \<and> volume ?started = volume el
      \<and> (\<forall>n. towards (volume ((fadeTick rnd ^^ n) ?started)) (volume (fadeTick rnd ((fadeTick rnd ^^ n) ?started))) e
       \<and> towards (volume el) (volume (fadeTick rnd ((fadeTick rnd ^^ n) ?started))) e
       \<and> (fadeInterval (fadeTick rnd ((fadeTick rnd ^^ n) ?started)) = None \<longrightarrow>
            volume (fadeTick rnd ((fadeTick rnd ^^ n) ?started)) = e)
       \<and> (fadeInterval (fadeTick rnd ((fadeTick rnd ^^ n) ?started)) \<noteq> None \<longrightarrow>
            fadeInterval (fadeTick rnd ((fadeTick rnd ^^ n) ?started)) = fadeInterval ?started
            \<and> (\<forall>q. ?s = Num q \<longrightarrow>
                 volume (fadeTick rnd ((fadeTick rnd ^^ n) ?started))
                   = rnd (volume ((fadeTick rnd ^^ n) ?started) + q))))"
    using run st by blast
  have fe: "volume el \<noteq> e \<longrightarrow>
      fadeAudio_frontend rnd e d (volume el) = Some \<lparr>fadeEnd = e, fadeStep = ?s\<rparr>
      \<and> fadeStart_frontend rnd e d (volume el) = (volume el, Some \<lparr>fadeEnd = e, fadeStep = ?s\<rparr>)
      \<and> (\<forall>n. towards (fst ((fadeNext_frontend rnd ^^ n) (fadeStart_frontend rnd e d (volume el))))
        (fst (fadeNext_frontend rnd ((fadeNext_frontend rnd ^^ n) (fadeStart_frontend rnd e d (volume el))))) e
     \<and> towards (volume el)
        (fst (fadeNext_frontend rnd ((fadeNext_frontend rnd ^^ n) (fadeStart_frontend rnd e d (volume el))))) e
     \<and> (snd (fadeNext_frontend rnd ((fadeNext_frontend rnd ^^ n) (fadeStart_frontend rnd e d (volume el)))) = None
          \<longrightarrow> fst (fadeNext_frontend rnd ((fadeNext_frontend rnd ^^ n) (fadeStart_frontend rnd e d (volume el)))) = e)
     \<and> (snd (fadeNext_frontend rnd ((fadeNext_frontend rnd ^^ n) (fadeStart_frontend rnd e d (volume el)))) \<noteq> None
          \<longrightarrow> snd (fadeNext_frontend rnd ((fadeNext_frontend rnd ^^ n) (fadeStart_frontend rnd e d (volume el))))
                = snd (fadeStart_frontend rnd e d (volume el))
              \<and> (\<forall>q. ?s = Num q \<longrightarrow>
                   fst (fadeNext_frontend rnd ((fadeNext_frontend rnd ^^ n) (fadeStart_frontend rnd e d (volume el))))
                     = rnd (fst ((fadeNext_frontend rnd ^^ n) (fadeStart_frontend rnd e d (volume el))) + q))))"
    using frontend_run(1) frontend_started frontend_ticks by blast
  have tick: "towards (volume el) (fst (fadeTick_frontend rnd \<lparr>fadeEnd = e, fadeStep = s\<rparr> (volume el))) e
     \<and> (snd (fadeTick_frontend rnd \<lparr>fadeEnd = e, fadeStep = s\<rparr> (volume el)) \<longrightarrow>
          fst (fadeTick_frontend rnd \<lparr>fadeEnd = e, fadeStep = s\<rparr> (volume el)) = e)
     \<and> (\<not> snd (fadeTick_frontend rnd \<lparr>fadeEnd = e, fadeStep = s\<rparr> (volume el)) \<longrightarrow>
          (\<forall>q. s = Num q \<longrightarrow>
             fst (fadeTick_frontend rnd \<lparr>fadeEnd = e, fadeStep = s\<rparr> (volume el)) = rnd (volume el + q)))"
    using frontend .
  have ends: "\<forall>q. fadeInterval el = Some \<lparr>fadeEnd = e, fadeStep = Num q\<rparr> \<longrightarrow>
            (fadeInterval (fadeTick rnd el) = None)
              = ((0 < q \<and> e \<le> rnd (volume el + q)) \<or> (q < 0 \<and> rnd (volume el + q) \<le> e))"
    by (simp add: fadeTick_def Let_def setVolume_def)
  have ends_frontend: "\<forall>q. snd (fadeTick_frontend rnd \<lparr>fadeEnd = e, fadeStep = Num q\<rparr> (volume el))
              = ((0 < q \<and> e \<le> rnd (volume el + q)) \<or> (q \<le> 0 \<and> rnd (volume el + q) \<le> e))"
    by (auto simp: fadeTick_frontend_def Let_def)
  have claims: "(volume el = e \<longrightarrow> fadeAudio rnd e d el = el)"
    using same by blast
  show ?thesis
    unfolding Let_def split_beta
    using claims v13 frontend_same fe tick ends ends_frontend by blast
qed


lemma rounding_quarters: "rounding (\<lambda>x. of_int \<lfloor>x * 4\<rfloor> / 4)"
  unfolding rounding_def
proof (intro conjI allI monoI)
  fix x y :: rat
  assume "x \<le> y"
  then have "\<lfloor>x * 4\<rfloor> \<le> \<lfloor>y * 4\<rfloor>"
    by (intro floor_mono) simp
  then show "(of_int \<lfloor>x * 4\<rfloor> / 4 :: rat) \<le> of_int \<lfloor>y * 4\<rfloor> / 4"
    by (simp add: divide_right_mono)
next
  fix x :: rat
  show "(of_int \<lfloor>of_int \<lfloor>x * 4\<rfloor> / 4 * 4\<rfloor> / 4 :: rat) = of_int \<lfloor>x * 4\<rfloor> / 4"
    by simp
qed

lemma floor_four_thirds: "\<lfloor>4 / 3 :: rat\<rfloor> = 1"
  by (rule floor_unique) simp_all

lemma fade_in_quarters:
  "fadeAudio (\<lambda>x. of_int \<lfloor>x * 4\<rfloor> / 4) 1 150 \<lparr>volume = 0, fadeInterval = None\<rparr>
     = \<lparr>volume = 0, fadeInterval = Some \<lparr>fadeEnd = 1, fadeStep = Num (1 / 4)\<rparr>\<rparr>"
  "(fadeTick (\<lambda>x. of_int \<lfloor>x * 4\<rfloor> / 4) ^^ 3)
       \<lparr>volume = 0, fadeInterval = Some \<lparr>fadeEnd = 1, fadeStep = Num (1 / 4)\<rparr>\<rparr>
     = \<lparr>volume = 3 / 4, fadeInterval = Some \<lparr>fadeEnd = 1, fadeStep = Num (1 / 4)\<rparr>\<rparr>"
  "fadeInterval (fadeTick (\<lambda>x. of_int \<lfloor>x * 4\<rfloor> / 4)
       \<lparr>volume = 3 / 4, fadeInterval = Some \<lparr>fadeEnd = 1, fadeStep = Num (1 / 4)\<rparr>\<rparr>) = None"
  by (simp_all add: numeral_3_eq_3 fadeAudio_def fadeTick_def Let_def setVolume_def js_divide_def
      floor_four_thirds)

lemma fade_frontend_thirds:
  "fadeStart_frontend (\<lambda>x. x) 1 150 0 = (0, Some \<lparr>fadeEnd = 1, fadeStep = Num (1 / 3)\<rparr>)"
  "(fadeNext_frontend (\<lambda>x. x) ^^ 2) (0, Some \<lparr>fadeEnd = 1, fadeStep = Num (1 / 3)\<rparr>)
     = (2 / 3, Some \<lparr>fadeEnd = 1, fadeStep = Num (1 / 3)\<rparr>)"
  "snd (fadeNext_frontend (\<lambda>x. x) (2 / 3, Some \<lparr>fadeEnd = 1, fadeStep = Num (1 / 3)\<rparr>)) = None"
  by (simp_all add: numeral_2_eq_2 fadeStart_frontend_def fadeAudio_frontend_def
      fadeNext_frontend_def fadeTick_frontend_def assignVolume_def Let_def js_divide_def)

theorem fadeAudio_moves_toward_end_witness:
  "volume ((fadeTick (\<lambda>x. x) ^^ 3) (fadeAudio (\<lambda>x. x) 1 150 \<lparr>volume = 0, fadeInterval = None\<rparr>)) = 1
   \<and> volume ((fadeTick (\<lambda>x. x) ^^ 2) (fadeAudio (\<lambda>x. x) 1 150 \<lparr>volume = 0, fadeInterval = None\<rparr>)) = 2 / 3
   \<and> fadeInterval ((fadeTick (\<lambda>x. x) ^^ 3) (fadeAudio (\<lambda>x. x) 1 150 \<lparr>volume = 0, fadeInterval = None\<rparr>)) = None
   \<and> fadeAudio (\<lambda>x. x) 1 150 \<lparr>volume = 1, fadeInterval = None\<rparr> = \<lparr>volume = 1, fadeInterval = None\<rparr>
   \<and> fst ((fadeNext_frontend (\<lambda>x. x) ^^ 2) (fadeStart_frontend (\<lambda>x. x) 1 150 0)) = 2 / 3
   \<and> fadeNext_frontend (\<lambda>x. x) ((fadeNext_frontend (\<lambda>x. x) ^^ 2) (fadeStart_frontend (\<lambda>x. x) 1 150 0))
        = (1, None)
   \<and> volume ((fadeTick (\<lambda>x. of_int \<lfloor>x * 4\<rfloor> / 4) ^^ 3)
        (fadeAudio (\<lambda>x. of_int \<lfloor>x * 4\<rfloor> / 4) 1 150 \<lparr>volume = 0, fadeInterval = None\<rparr>)) = 3 / 4
   \<and> volume (fadeTick (\<lambda>x. of_int \<lfloor>x * 4\<rfloor> / 4) ((fadeTick (\<lambda>x. of_int \<lfloor>x * 4\<rfloor> / 4) ^^ 3)
        (fadeAudio (\<lambda>x. of_int \<lfloor>x * 4\<rfloor> / 4) 1 150 \<lparr>volume = 0, fadeInterval = None\<rparr>))) = 1"
proof -
  let ?el = "\<lparr>volume = 0, fadeInterval = None\<rparr>"
  let ?one = "\<lparr>volume = 1, fadeInterval = None\<rparr>"
  let ?quarters = "\<lambda>x::rat. of_int \<lfloor>x * 4\<rfloor> / 4 :: rat"
  have r: "rounding (\<lambda>x. x)"
    by (simp add: rounding_def mono_def)
  have st: "fadeAudio (\<lambda>x. x) 1 150 ?el
      = \<lparr>volume = 0, fadeInterval = Some \<lparr>fadeEnd = 1, fadeStep = Num (1 / 3)\<rparr>\<rparr>"
    by (simp add: fadeAudio_def Let_def js_divide_def)
  have t1: "fadeTick (\<lambda>x. x) \<lparr>volume = 0, fadeInterval = Some \<lparr>fadeEnd = 1, fadeStep = Num (1 / 3)\<rparr>\<rparr>
      = \<lparr>volume = 1 / 3, fadeInterval = Some \<lparr>fadeEnd = 1, fadeStep = Num (1 / 3)\<rparr>\<rparr>"
    by (simp add: fadeTick_def Let_def setVolume_def)
  have t2: "fadeTick (\<lambda>x. x) \<lparr>volume = 1 / 3, fadeInterval = Some \<lparr>fadeEnd = 1, fadeStep = Num (1 / 3)\<rparr>\<rparr>
      = \<lparr>volume = 2 / 3, fadeInterval = Some \<lparr>fadeEnd = 1, fadeStep = Num (1 / 3)\<rparr>\<rparr>"
    by (simp add: fadeTick_def Let_def setVolume_def)
  have t3: "fadeInterval (fadeTick (\<lambda>x. x)
        \<lparr>volume = 2 / 3, fadeInterval = Some \<lparr>fadeEnd = 1, fadeStep = Num (1 / 3)\<rparr>\<rparr>) = None"
    by (simp add: fadeTick_def Let_def setVolume_def)
  have two: "(fadeTick (\<lambda>x. x) ^^ 2) (fadeAudio (\<lambda>x. x) 1 150 ?el)
      = \<lparr>volume = 2 / 3, fadeInterval = Some \<lparr>fadeEnd = 1, fadeStep = Num (1 / 3)\<rparr>\<rparr>"
    by (simp add: numeral_2_eq_2 st t1 t2)
  have three: "(fadeTick (\<lambda>x. x) ^^ 3) (fadeAudio (\<lambda>x. x) 1 150 ?el)
      = fadeTick (\<lambda>x. x) ((fadeTick (\<lambda>x. x) ^^ 2) (fadeAudio (\<lambda>x. x) 1 150 ?el))"
    by (simp add: numeral_3_eq_3 numeral_2_eq_2)
  note exact = fadeAudio_moves_toward_end [OF r, of ?el 1 150 NaN]
  from exact
  have h: "\<forall>n. fadeInterval (fadeTick (\<lambda>x. x) ((fadeTick (\<lambda>x. x) ^^ n) (fadeAudio (\<lambda>x. x) 1 150 ?el))) = None
        \<longrightarrow> volume (fadeTick (\<lambda>x. x) ((fadeTick (\<lambda>x. x) ^^ n) (fadeAudio (\<lambda>x. x) 1 150 ?el))) = 1"
    by (simp add: Let_def)
  have v13: "volume (fadeTick (\<lambda>x. x) ((fadeTick (\<lambda>x. x) ^^ 2) (fadeAudio (\<lambda>x. x) 1 150 ?el))) = 1"
    using h [rule_format, of 2] t3 two by simp
  from fadeAudio_moves_toward_end [OF r, of ?one 1 150 NaN]
  have same: "fadeAudio (\<lambda>x. x) 1 150 ?one = ?one"
    by simp
  from exact
  have g: "\<forall>n. snd (fadeNext_frontend (\<lambda>x. x) ((fadeNext_frontend (\<lambda>x. x) ^^ n) (fadeStart_frontend (\<lambda>x. x) 1 150 0))) = None
        \<longrightarrow> fst (fadeNext_frontend (\<lambda>x. x) ((fadeNext_frontend (\<lambda>x. x) ^^ n) (fadeStart_frontend (\<lambda>x. x) 1 150 0))) = 1"
    by (auto simp: Let_def)
  have "fst (fadeNext_frontend (\<lambda>x. x) ((fadeNext_frontend (\<lambda>x. x) ^^ 2) (fadeStart_frontend (\<lambda>x. x) 1 150 0))) = 1"
    using g [rule_format, of 2] by (simp add: fade_frontend_thirds)
  then have frontend: "fadeNext_frontend (\<lambda>x. x) ((fadeNext_frontend (\<lambda>x. x) ^^ 2) (fadeStart_frontend (\<lambda>x. x) 1 150 0))
        = (1, None)"
    using fade_frontend_thirds(3) by (simp add: fade_frontend_thirds(1,2) prod_eq_iff)
  from fadeAudio_moves_toward_end [OF rounding_quarters, of ?el 1 150 NaN]
  have q: "\<forall>n. fadeInterval (fadeTick ?quarters ((fadeTick ?quarters ^^ n) (fadeAudio ?quarters 1 150 ?el))) = None
        \<longrightarrow> volume (fadeTick ?quarters ((fadeTick ?quarters ^^ n) (fadeAudio ?quarters 1 150 ?el))) = 1"
    by (simp add: Let_def)
  have rounded: "volume (fadeTick ?quarters ((fadeTick ?quarters ^^ 3) (fadeAudio ?quarters 1 150 ?el))) = 1"
    using q [rule_format, of 3] by (simp add: fade_in_quarters)
  show ?thesis
    using two three t3 v13 same frontend rounded
    by (simp add: fade_frontend_thirds fade_in_quarters)
qed


section \<open>Properties of polling and of the stage sequencer\<close>

lemma timersOk_append:
  assumes "timersOk ts next handle" and "callback t = PollTick \<longrightarrow> handle = Some next"
    and "timerId t = next"
  shows "timersOk (ts @ [t]) (Suc next) handle"
  using assms by (auto simp: timersOk_def list_all_iff)

lemma timersOk_filter:
  assumes "timersOk ts next handle"
  shows "timersOk (filter P ts) next handle"
  using assms by (auto simp: timersOk_def list_all_iff distinct_map_filter)

lemma timersOk_no_poll:
  assumes "timersOk ts next handle" and "list_all (\<lambda>t. callback t \<noteq> PollTick) ts"
  shows "timersOk ts next handle'"
  using assms by (auto simp: timersOk_def list_all_iff)

lemma timersOk_cleared:
  assumes "timersOk ts next (Some i)"
  shows "list_all (\<lambda>t. callback t \<noteq> PollTick) (filter (\<lambda>t. timerId t \<noteq> i) ts)"
  using assms by (auto simp: timersOk_def list_all_iff)

lemma timersOk_none:
  assumes "timersOk ts next None"
  shows "list_all (\<lambda>t. callback t \<noteq> PollTick) ts"
  using assms by (auto simp: timersOk_def list_all_iff)

lemma timersOk_rearm:
  assumes "timersOk ts next handle" and "t \<in> set ts"
    and "timerId t1 = timerId t" and "callback t1 = callback t"
  shows "timersOk (map (\<lambda>u. if timerId u = timerId t then t1 else u) ts) next handle"
proof -
  have ids: "map timerId (map (\<lambda>u. if timerId u = timerId t then t1 else u) ts) = map timerId ts"
    using assms(3) by (induction ts) auto
  show ?thesis
    using assms unfolding timersOk_def ids by (auto simp: list_all_iff)
qed

lemma inv_setTimeout:
  "pollingInvariant st \<Longrightarrow> f \<noteq> PollTick \<Longrightarrow> pollingInvariant (setTimeout f d st)"
  by (simp add: pollingInvariant_def setTimeout_def timersOk_append)

lemma inv_setInterval:
  "pollingInvariant st \<Longrightarrow> f \<noteq> PollTick \<Longrightarrow> pollingInvariant (snd (setInterval f d st))"
  by (simp add: pollingInvariant_def setInterval_def timersOk_append)

lemma inv_clearInterval:
  "pollingInvariant st \<Longrightarrow> pollingInvariant (clearInterval h st)"
  by (simp add: pollingInvariant_def clearInterval_def timersOk_filter split: option.splits)

lemma inv_startPolling:
  assumes "pollingInvariant st"
  shows "pollingInvariant (startPolling st)"
proof -
  let ?st1 = "case pollingIntervalId st of
                Some i \<Rightarrow> if i \<noteq> 0 then clearInterval (Some i) st else st
              | None \<Rightarrow> st"
  have ok: "timersOk (timers ?st1) (nextTimerId st) (pollingIntervalId st)"
    using assms
    by (auto simp: pollingInvariant_def clearInterval_def timersOk_filter split: option.splits)
  have nopoll: "list_all (\<lambda>t. callback t \<noteq> PollTick) (timers ?st1)"
  proof (cases "pollingIntervalId st")
    case None
    with assms show ?thesis
      by (simp add: pollingInvariant_def timersOk_none)
  next
    case (Some i)
    show ?thesis
    proof (cases "i = 0")
      case True
      from assms Some True show ?thesis
        by (auto simp: pollingInvariant_def timersOk_def list_all_iff)
    next
      case False
      with assms Some show ?thesis
        by (simp add: pollingInvariant_def clearInterval_def timersOk_cleared)
    qed
  qed
  have same_next: "nextTimerId ?st1 = nextTimerId st"
    by (simp add: clearInterval_def split: option.splits)
  from timersOk_no_poll [OF ok nopoll]
  have "timersOk (timers ?st1) (nextTimerId st) (Some (nextTimerId st))" .
  then show ?thesis
    by (simp add: pollingInvariant_def startPolling_def setInterval_def Let_def same_next
        timersOk_append)
qed

lemma inv_fields [simp]:
  "pollingInvariant (st\<lparr>clock := c\<rparr>) = pollingInvariant st"
  "pollingInvariant (st\<lparr>therapySessionId := sid\<rparr>) = pollingInvariant st"
  "pollingInvariant (st\<lparr>currentStageId := cur\<rparr>) = pollingInvariant st"
  "pollingInvariant (st\<lparr>inFlight := n\<rparr>) = pollingInvariant st"
  "pollingInvariant (st\<lparr>fetches := fs\<rparr>) = pollingInvariant st"
  "pollingInvariant (st\<lparr>healingVideo := v\<rparr>) = pollingInvariant st"
  "pollingInvariant (st\<lparr>fadeIntervalId := h\<rparr>) = pollingInvariant st"
  by (simp_all add: pollingInvariant_def)

lemma inv_switchToStage:
  "pollingInvariant st \<Longrightarrow> pollingInvariant (switchToStage n st)"
  by (simp add: switchToStage_def inv_setTimeout)

lemma inv_handleState:
  "pollingInvariant st \<Longrightarrow> pollingInvariant (outcome (handleState data st))"
  by (simp add: handleState_def runKgSequence_def Let_def inv_setTimeout inv_setInterval
      inv_clearInterval inv_switchToStage split: option.splits json.splits)

lemma inv_handleState_frontend:
  "pollingInvariant st \<Longrightarrow> pollingInvariant (outcome (handleState_frontend data st))"
  by (simp add: handleState_frontend_def Let_def inv_setTimeout inv_setInterval inv_clearInterval
      inv_switchToStage split: option.splits json.splits)

lemma inv_fadeAudioOn:
  assumes "pollingInvariant st"
  shows "pollingInvariant (fadeAudioOn rnd e d st)"
proof (cases "loaded st")
  case StudyFlowV13
  have "pollingInvariant (snd (setInterval FadeTick 50 (clearInterval (fadeIntervalId st) st)))"
    using assms by (simp add: inv_setInterval inv_clearInterval)
  with assms StudyFlowV13 show ?thesis
    by (simp add: fadeAudioOn_def Let_def split_beta)
next
  case StudyFlowFrontend
  with assms show ?thesis
    by (simp add: fadeAudioOn_def inv_setInterval split: option.splits)
qed

lemma inv_pollTick:
  "pollingInvariant st \<Longrightarrow> pollingInvariant (pollTick st)"
  by (simp add: pollTick_def Let_def inv_clearInterval split: script.splits option.splits)

lemma inv_runCallback:
  assumes "pollingInvariant st"
  shows "pollingInvariant (runCallback rnd t st)"
proof (cases "callback t")
  case FadeTick
  with assms show ?thesis
    by (simp add: runCallback_def Let_def inv_clearInterval)
next
  case (FadeTickOf f)
  with assms show ?thesis
    by (simp add: runCallback_def Let_def split_beta inv_clearInterval)
qed (use assms in \<open>simp_all add: runCallback_def inv_pollTick inv_startPolling inv_clearInterval
      inv_setTimeout inv_switchToStage inv_fadeAudioOn split: script.splits\<close>)

lemma earliest_mem: "earliest ts = Some t \<Longrightarrow> t \<in> set ts"
  by (induction ts arbitrary: t) (auto split: option.splits if_splits)

lemma inv_fire:
  assumes "pollingInvariant st"
  shows "pollingInvariant (fire rnd st)"
proof (cases "earliest (timers st)")
  case None
  with assms show ?thesis by (simp add: fire_def)
next
  case (Some t)
  then have mem: "t \<in> set (timers st)" by (rule earliest_mem)
  let ?t1 = "case period t of None \<Rightarrow> t | Some p \<Rightarrow> t\<lparr>due := due t + p, fired := fired t + 1\<rparr>"
  let ?pending = "case period t of
                    None \<Rightarrow> filter (\<lambda>u. timerId u \<noteq> timerId t) (timers st)
                  | Some p \<Rightarrow> map (\<lambda>u. if timerId u = timerId t then ?t1 else u) (timers st)"
  have "timersOk ?pending (nextTimerId st) (pollingIntervalId st)"
  proof (cases "period t")
    case None
    with assms show ?thesis
      by (simp add: pollingInvariant_def timersOk_filter)
  next
    case (Some p)
    have "timersOk (map (\<lambda>u. if timerId u = timerId t then t\<lparr>due := due t + p, fired := fired t + 1\<rparr> else u)
                     (timers st)) (nextTimerId st) (pollingIntervalId st)"
      using assms mem by (intro timersOk_rearm) (simp_all add: pollingInvariant_def)
    with Some show ?thesis by (simp cong: if_cong)
  qed
  then have "pollingInvariant (st\<lparr>clock := max (clock st) (due t), timers := ?pending\<rparr>)"
    by (simp add: pollingInvariant_def)
  then have "pollingInvariant (runCallback rnd ?t1 (st\<lparr>clock := max (clock st) (due t), timers := ?pending\<rparr>))"
    by (rule inv_runCallback)
  with Some show ?thesis
    by (simp add: fire_def Let_def)
qed

lemma inv_respond:
  assumes "pollingInvariant st"
  shows "pollingInvariant (respond r st)"
proof -
  have v13: "pollingInvariant (case handleState data st of
                Returns st1 \<Rightarrow> st1 | Throws st1 \<Rightarrow> pollingFailed st1)" for data
    using inv_handleState [OF assms, of data]
    by (cases "handleState data st") (simp_all add: pollingFailed_def inv_clearInterval)
  show ?thesis
    using assms v13
    by (simp add: respond_def pollingFailed_def inv_clearInterval inv_handleState_frontend
        split: script.splits reply.splits option.splits)
qed

lemma inv_restart:
  assumes "pollingInvariant st"
  shows "pollingInvariant (restart st)"
proof (cases "pollingIntervalId st")
  case None
  with assms show ?thesis by (simp add: restart_def Let_def)
next
  case (Some i)
  show ?thesis
  proof (cases "i = 0")
    case True
    with assms Some show ?thesis by (simp add: restart_def Let_def)
  next
    case False
    have "timersOk (filter (\<lambda>t. timerId t \<noteq> i) (timers st)) (nextTimerId st) (Some i)"
      using assms Some by (simp add: pollingInvariant_def timersOk_filter)
    moreover have "list_all (\<lambda>t. callback t \<noteq> PollTick) (filter (\<lambda>t. timerId t \<noteq> i) (timers st))"
      using assms Some by (simp add: pollingInvariant_def timersOk_cleared)
    ultimately have "timersOk (filter (\<lambda>t. timerId t \<noteq> i) (timers st)) (nextTimerId st) None"
      by (rule timersOk_no_poll)
    with assms Some False show ?thesis
      by (simp add: restart_def Let_def clearInterval_def pollingInvariant_def)
  qed
qed

lemma inv_step:
  assumes "pollingInvariant st" and "step rnd ev st = Some st1"
  shows "pollingInvariant st1"
proof (cases ev)
  case Fire
  with assms show ?thesis
    by (auto simp: step_def inv_fire split: if_splits)
next
  case (Respond ms r)
  with assms show ?thesis
    by (auto simp: step_def inv_respond split: if_splits)
next
  case (SessionCreated ms sid)
  with assms show ?thesis
    by (auto simp: step_def Let_def inv_startPolling split: if_splits)
next
  case (Restart ms)
  with assms show ?thesis
    by (auto simp: step_def inv_restart split: if_splits)
qed

lemma inv_run:
  assumes "pollingInvariant st" and "run rnd evs st = Some st1"
  shows "pollingInvariant st1"
  using assms
proof (induction evs arbitrary: st)
  case Nil
  then show ?case by simp
next
  case (Cons ev evs)
  then obtain st2 where s: "step rnd ev st = Some st2" and r: "run rnd evs st2 = Some st1"
    by (auto split: option.splits)
  from inv_step [OF Cons.prems(1) s] have "pollingInvariant st2" .
  from Cons.IH [OF this r] show ?case .
qed

lemma inv_initialPage: "pollingInvariant (initialPage s c v)"
  by (simp add: pollingInvariant_def initialPage_def timersOk_def)

lemma inv_one_poll:
  assumes "pollingInvariant st"
  shows "length (polling st) \<le> 1"
proof -
  from assms have d: "distinct (map timerId (polling st))"
    by (simp add: pollingInvariant_def timersOk_def polling_def distinct_map_filter)
  from assms have same: "\<forall>t \<in> set (polling st). Some (timerId t) = pollingIntervalId st"
    by (auto simp: pollingInvariant_def timersOk_def polling_def list_all_iff)
  show ?thesis
  proof (cases "polling st")
    case Nil
    then show ?thesis by simp
  next
    case (Cons a as)
    show ?thesis
    proof (cases as)
      case Nil
      with Cons show ?thesis by simp
    next
      case (Cons b bs)
      with \<open>polling st = a # as\<close> same have "Some (timerId a) = Some (timerId b)" by simp
      moreover from Cons \<open>polling st = a # as\<close> d have "timerId a \<noteq> timerId b" by simp
      ultimately show ?thesis by simp
    qed
  qed
qed

lemmas page_defs = fire_def runCallback_def Let_def setTimeout_def setInterval_def clearInterval_def
  startPolling_def switchToStage_def pollTick_def handleState_def runKgSequence_def
  drawsEmotionMap_def pollingFailed_def literal_def step_def arrives_def respond_def
  initialPage_def hasCard_def stageKeys_def allCards_def frontendCards_def

lemma funpow_3: "(f ^^ 3) x = f (f (f x))"
  by (simp add: eval_nat_numeral)

lemma funpow_5: "(f ^^ 5) x = f (f (f (f (f x))))"
  by (simp add: eval_nat_numeral)

lemma funpow_11: "(f ^^ 11) x = f (f (f (f (f (f (f (f (f (f (f x))))))))))"
  by (simp add: eval_nat_numeral)

lemma funpow_14: "(f ^^ 14) x = (f ^^ 3) ((f ^^ 11) x)"
  by (simp add: funpow_add [of 3 11, simplified])

text \<open>
  An answer that carries a status and no \<^verbatim>\<open>result\<close>: \<^verbatim>\<open>handleState\<close> throws after it has
  cleared the polling interval and schedules no call of \<^verbatim>\<open>startPolling\<close>, and the
  callback of the emotion map registers nothing.
\<close>

lemma handleState_without_result:
  "handleState (JsonObject [(''status'', JsonString ''KG_COMPLETE'')]) st
     = Throws (switchToStage ''step-kg-result'' (clearInterval (pollingIntervalId st) st))"
  "handleState_frontend (JsonObject [(''status'', JsonString ''KG_COMPLETE'')]) st
     = Throws (clearInterval (pollingIntervalId st) st)"
  "handleState_frontend (JsonObject [(''status'', JsonString ''ISO_PRINCIPLE_READY'')]) st
     = Throws (clearInterval (pollingIntervalId st) st)"
  "callback t = EmotionMap (JsonObject [(''status'', JsonString ''AC_COMPLETE'')]) \<Longrightarrow>
     runCallback rnd t st = st"
  by (simp_all add: handleState_def handleState_frontend_def runCallback_def drawsEmotionMap_def
      literal_def Let_def)

lemma overlap_reached:
  "run (\<lambda>x. x) overlappingPolls (initialPage StudyFlowV13 allCards 1) = Some firstAnswered"
  by (simp add: firstAnswered_def overlappingPolls_def acComplete_def page_defs)

lemma overlap_second:
  "step (\<lambda>x. x) (Respond 4200 (Response True (Some kgComplete))) firstAnswered = Some secondAnswered"
  by (simp add: firstAnswered_def secondAnswered_def kgComplete_def page_defs)

lemma overlap_run:
  "run (\<lambda>x. x) (overlappingPolls @ [Respond 4200 (Response True (Some kgComplete))])
     (initialPage StudyFlowV13 allCards 1) = Some secondAnswered"
proof -
  have "run rnd (xs @ [ev]) st = (case run rnd xs st of None \<Rightarrow> None | Some st1 \<Rightarrow> step rnd ev st1)"
    for rnd xs ev st
    by (induction xs arbitrary: st) (simp_all split: option.splits)
  then show ?thesis
    by (simp add: overlap_reached overlap_second)
qed

lemma overlap_restarts:
  "(fire (\<lambda>x. x) ^^ 11) secondAnswered =
     \<lparr>loaded = StudyFlowV13, clock = 11600,
      timers =
        [\<lparr>timerId = 7, due = 12200, period = None, fired = 0,
           callback = Display ''prescription-card''\<rparr>,
         \<lparr>timerId = 8, due = 17200, period = None, fired = 0, callback = StartPolling\<rparr>,
         \<lparr>timerId = 13, due = 13600, period = Some 2000, fired = 0, callback = PollTick\<rparr>],
      nextTimerId = 14, therapySessionId = Some ''s1'', pollingIntervalId = Some 13,
      currentStageId = ''step-kg-result'', inFlight = 0, fetches = [2000, 4000], cards = allCards,
      healingVideo = \<lparr>volume = 1, fadeInterval = None\<rparr>, fadeIntervalId = None\<rparr>"
  by (simp add: funpow_11 secondAnswered_def acComplete_def page_defs)

lemma overlap_polls:
  "(fire (\<lambda>x. x) ^^ 14) secondAnswered =
     \<lparr>loaded = StudyFlowV13, clock = 15600,
      timers =
        [\<lparr>timerId = 8, due = 17200, period = None, fired = 0, callback = StartPolling\<rparr>,
         \<lparr>timerId = 13, due = 17600, period = Some 2000, fired = 2, callback = PollTick\<rparr>],
      nextTimerId = 14, therapySessionId = Some ''s1'', pollingIntervalId = Some 13,
      currentStageId = ''step-kg-result'', inFlight = 2, fetches = [2000, 4000, 13600, 15600],
      cards = allCards,
      healingVideo = \<lparr>volume = 1, fadeInterval = None\<rparr>, fadeIntervalId = None\<rparr>"
  unfolding funpow_14 overlap_restarts
  by (simp add: funpow_3 page_defs)

text \<open>
  C4.  \<^verbatim>\<open>handleState\<close> pauses polling by clearing the interval and scheduling a call
  of \<^verbatim>\<open>startPolling\<close> for the end of the stage (the comments of
  \<^verbatim>\<open>frontend/study_flow.js\<close> say: pause polling; when all animations have played,
  continue polling).  But the interval callback awaits \<^verbatim>\<open>fetch\<close>, so two requests can
  be unanswered at once, and nothing cancels the call of \<^verbatim>\<open>startPolling\<close> that an
  earlier answer scheduled.  In the run \<open>overlappingPolls\<close> the interval ticks at 2000
  and at 4000 before the first answer, \<^verbatim>\<open>AC_COMPLETE\<close>, arrives at 4100; the second
  answer, \<^verbatim>\<open>KG_COMPLETE\<close>, arrives at 4200, and \<^verbatim>\<open>handleState\<close> clears the polling
  interval and schedules \<^verbatim>\<open>startPolling\<close> for 17200, which is 13000 milliseconds
  later.  The call of \<^verbatim>\<open>startPolling\<close> that the first answer led to runs at 11600
  and registers a polling interval, which issues requests at 13600 and at 15600: polling
  is active while the sequence of the second stage is scheduled.
\<close>

theorem overlapping_answers_resume_polling_early:
  "run (\<lambda>x. x) (overlappingPolls @ [Respond 4200 (Response True (Some kgComplete))])
     (initialPage StudyFlowV13 allCards 1) = Some secondAnswered
   \<and> clock secondAnswered = 4200
   \<and> polling secondAnswered = []
   \<and> map (\<lambda>t. due t) (filter (\<lambda>t. callback t = StartPolling) (timers secondAnswered)) = [4200 + 13000]
   \<and> clock ((fire (\<lambda>x. x) ^^ 11) secondAnswered) = 11600
   \<and> polling ((fire (\<lambda>x. x) ^^ 11) secondAnswered)
       = [\<lparr>timerId = 13, due = 13600, period = Some 2000, fired = 0, callback = PollTick\<rparr>]
   \<and> clock ((fire (\<lambda>x. x) ^^ 14) secondAnswered) = 15600
   \<and> fetches ((fire (\<lambda>x. x) ^^ 14) secondAnswered) = [2000, 4000, 13600, 15600]
   \<and> map (\<lambda>t. due t)
        (filter (\<lambda>t. callback t = StartPolling) (timers ((fire (\<lambda>x. x) ^^ 14) secondAnswered)))
       = [4200 + 13000]
   \<and> (15600 :: nat) < 4200 + 13000"
  by (simp add: overlap_run overlap_restarts overlap_polls polling_def)
    (simp add: secondAnswered_def)

text \<open>
  The same answers on the page of \<^verbatim>\<open>frontend/study_flow.js\<close>: the second
  \<^verbatim>\<open>handleState\<close> schedules \<^verbatim>\<open>startPolling\<close> for 17700, and a request goes out at
  17600.
\<close>

lemma overlap_frontend:
  "map_option (\<lambda>st. (clock st, fetches st, length (polling st),
        map (\<lambda>t. due t) (filter (\<lambda>t. callback t = StartPolling) (timers st))))
     (run (\<lambda>x. x) overlappingPolls_frontend (initialPage StudyFlowFrontend frontendCards 1))
   = Some (17600, [2000, 4000, 17600], 1, [4200 + 13500])"
  by (simp add: overlappingPolls_frontend_def acComplete_def kgComplete_def frontendCards_def
      handleState_frontend_def page_defs polling_def)

text \<open>
  When the only request is answered before the next tick, as in \<open>singlePoll\<close>, no
  polling interval is pending during the stage and polling resumes 13000 milliseconds
  after the answer.
\<close>

lemma single_reached:
  "run (\<lambda>x. x) singlePoll (initialPage StudyFlowV13 allCards 1) = Some onlyAnswered"
  by (simp add: onlyAnswered_def singlePoll_def kgComplete_def page_defs)

lemma single_resumes_on_time:
  "polling onlyAnswered = []
   \<and> polling ((fire (\<lambda>x. x) ^^ 3) onlyAnswered) = []
   \<and> clock ((fire (\<lambda>x. x) ^^ 3) onlyAnswered) = 6100
   \<and> fetches ((fire (\<lambda>x. x) ^^ 3) onlyAnswered) = [2000]
   \<and> clock ((fire (\<lambda>x. x) ^^ 5) onlyAnswered) = 2100 + 13000
   \<and> polling ((fire (\<lambda>x. x) ^^ 5) onlyAnswered)
       = [\<lparr>timerId = 7, due = 17100, period = Some 2000, fired = 0, callback = PollTick\<rparr>]
   \<and> fetches ((fire (\<lambda>x. x) ^^ 5) onlyAnswered) = [2000]"
  by (simp add: funpow_3 funpow_5 onlyAnswered_def page_defs polling_def)

lemma startPolling_timers:
  assumes "pollingInvariant st"
  shows "polling (startPolling st)
       = [\<lparr>timerId = nextTimerId st, due = clock st + 2000, period = Some 2000, fired = 0,
           callback = PollTick\<rparr>]"
    and "pollingIntervalId (startPolling st) = Some (nextTimerId st)"
    and "list_all (\<lambda>t. callback t = PollTick) (timers st) \<Longrightarrow>
         timers (startPolling st)
           = [\<lparr>timerId = nextTimerId st, due = clock st + 2000, period = Some 2000, fired = 0,
               callback = PollTick\<rparr>]"
proof -
  let ?st1 = "case pollingIntervalId st of
                Some i \<Rightarrow> if i \<noteq> 0 then clearInterval (Some i) st else st
              | None \<Rightarrow> st"
  have nopoll: "list_all (\<lambda>t. callback t \<noteq> PollTick) (timers ?st1)"
  proof (cases "pollingIntervalId st")
    case None
    with assms show ?thesis
      by (simp add: pollingInvariant_def timersOk_none)
  next
    case (Some i)
    show ?thesis
    proof (cases "i = 0")
      case True
      from assms Some True show ?thesis
        by (auto simp: pollingInvariant_def timersOk_def list_all_iff)
    next
      case False
      with assms Some show ?thesis
        by (simp add: pollingInvariant_def clearInterval_def timersOk_cleared)
    qed
  qed
  have sub: "set (timers ?st1) \<subseteq> set (timers st)"
    by (auto simp: clearInterval_def split: option.splits)
  have same: "nextTimerId ?st1 = nextTimerId st" "clock ?st1 = clock st"
    by (simp_all add: clearInterval_def split: option.splits)
  have t: "timers (startPolling st) = timers ?st1 @
      [\<lparr>timerId = nextTimerId st, due = clock st + 2000, period = Some 2000, fired = 0,
         callback = PollTick\<rparr>]"
    by (simp add: startPolling_def setInterval_def Let_def same)
  from nopoll have "filter (\<lambda>t. callback t = PollTick) (timers ?st1) = []"
    by (auto simp: list_all_iff filter_empty_conv)
  with t show "polling (startPolling st)
       = [\<lparr>timerId = nextTimerId st, due = clock st + 2000, period = Some 2000, fired = 0,
           callback = PollTick\<rparr>]"
    by (simp add: polling_def)
  show "pollingIntervalId (startPolling st) = Some (nextTimerId st)"
    by (simp add: startPolling_def setInterval_def Let_def same)
  show "timers (startPolling st)
           = [\<lparr>timerId = nextTimerId st, due = clock st + 2000, period = Some 2000, fired = 0,
               callback = PollTick\<rparr>]"
    if "list_all (\<lambda>t. callback t = PollTick) (timers st)"
  proof -
    have "timers ?st1 = []"
    proof (cases "timers ?st1")
      case Nil
      then show ?thesis .
    next
      case (Cons u us)
      then have "u \<in> set (timers ?st1)" by simp
      with nopoll have "callback u \<noteq> PollTick" by (simp add: list_all_iff)
      moreover from \<open>u \<in> set (timers ?st1)\<close> sub that have "callback u = PollTick"
        by (auto simp: list_all_iff)
      ultimately show ?thesis by simp
    qed
    with t show ?thesis by simp
  qed
qed

lemma poll_fire:
  assumes "timers st = [p]" and "callback p = PollTick" and "period p = Some 2000"
    and "sessionActive st" and "clock st \<le> due p"
  shows "timers (fire rnd st) = [p\<lparr>due := due p + 2000, fired := fired p + 1\<rparr>]"
    and "fetches (fire rnd st) = fetches st @ [due p]"
    and "clock (fire rnd st) = due p"
    and "sessionActive (fire rnd st)"
  using assms
  by (auto simp: fire_def runCallback_def pollTick_def Let_def sessionActive_def max_def
      split: script.splits option.splits)

lemma poll_funpow:
  assumes "timers st = [p]" and "callback p = PollTick" and "period p = Some 2000"
    and "sessionActive st" and "clock st \<le> due p"
  shows "timers ((fire rnd ^^ n) st) = [p\<lparr>due := due p + 2000 * n, fired := fired p + n\<rparr>]
       \<and> fetches ((fire rnd ^^ n) st) = fetches st @ map (\<lambda>k. due p + 2000 * k) [0 ..< n]
       \<and> sessionActive ((fire rnd ^^ n) st)
       \<and> clock ((fire rnd ^^ n) st) \<le> due p + 2000 * n"
proof (induction n)
  case 0
  with assms show ?case by simp
next
  case (Suc n)
  let ?s = "(fire rnd ^^ n) st"
  let ?q = "p\<lparr>due := due p + 2000 * n, fired := fired p + n\<rparr>"
  from Suc have t: "timers ?s = [?q]" and a: "sessionActive ?s" and c: "clock ?s \<le> due ?q"
    and f: "fetches ?s = fetches st @ map (\<lambda>k. due p + 2000 * k) [0 ..< n]"
    by simp_all
  have q: "callback ?q = PollTick" "period ?q = Some 2000"
    using assms by simp_all
  note step = poll_fire [OF t q a c, of rnd]
  show ?case
    using step f by simp
qed

lemma session_startPolling [simp]: "sessionActive (startPolling st) = sessionActive st"
  by (simp add: sessionActive_def startPolling_def setInterval_def clearInterval_def Let_def
      split: option.splits)

lemma fetches_startPolling [simp]: "fetches (startPolling st) = fetches st"
  by (simp add: startPolling_def setInterval_def clearInterval_def Let_def split: option.splits)

lemma clock_startPolling [simp]: "clock (startPolling st) = clock st"
  by (simp add: startPolling_def setInterval_def clearInterval_def Let_def split: option.splits)

lemma map_upt_from_one: "map (\<lambda>k. c + 2000 + 2000 * k) [0 ..< n] = map (\<lambda>k. c + 2000 * k) [1 ..< Suc n]"
proof -
  have "[1 ..< Suc n] = map Suc [0 ..< n]"
    by (simp add: map_Suc_upt del: upt_Suc)
  then show ?thesis by (simp add: comp_def del: upt_Suc)
qed

lemma idle_tick:
  assumes "timers st = [p]" and "callback p = PollTick" and "pollingIntervalId st = Some (timerId p)"
    and "loaded st = StudyFlowV13" and "\<not> sessionActive st"
  shows "timers (fire rnd st) = [] \<and> fetches (fire rnd st) = fetches st"
  using assms
  by (auto simp: fire_def runCallback_def pollTick_def Let_def sessionActive_def clearInterval_def
      split: script.splits option.splits)

text \<open>
  C5.  \<^verbatim>\<open>startPolling\<close> clears the polling interval registered before and registers
  one with a period of 2000 milliseconds, whose id it stores; in every state the page
  reaches from its initial state at most one polling interval is pending.  Started on
  a page with no other timer, the interval issues one \<^verbatim>\<open>session_status\<close> request at
  each multiple of 2000 milliseconds after the call, for as long as it runs; in the V13
  script a tick that finds no session id cancels the interval and issues no request.
\<close>

theorem polling_single_interval_fixed_period:
  "(pollingInvariant st \<longrightarrow>
       polling (startPolling st)
         = [\<lparr>timerId = nextTimerId st, due = clock st + 2000, period = Some 2000, fired = 0,
             callback = PollTick\<rparr>]
     \<and> pollingIntervalId (startPolling st) = Some (nextTimerId st))
   \<and> (run rnd events (initialPage s c v) = Some st1 \<longrightarrow> length (polling st1) \<le> 1)
   \<and> (pollingInvariant st \<and> list_all (\<lambda>t. callback t = PollTick) (timers st) \<and> sessionActive st \<longrightarrow>
        (\<forall>n. fetches ((fire rnd ^^ n) (startPolling st))
                = fetches st @ map (\<lambda>k. clock st + 2000 * k) [1 ..< Suc n]
            \<and> length (polling ((fire rnd ^^ n) (startPolling st))) = 1))
   \<and> (pollingInvariant st \<and> list_all (\<lambda>t. callback t = PollTick) (timers st)
        \<and> loaded st = StudyFlowV13 \<and> \<not> sessionActive st \<longrightarrow>
        timers (fire rnd (startPolling st)) = []
        \<and> fetches (fire rnd (startPolling st)) = fetches st)"
proof -
  let ?p = "\<lparr>timerId = nextTimerId st, due = clock st + 2000, period = Some 2000, fired = 0,
             callback = PollTick\<rparr>"
  have one: "length (polling st1) \<le> 1" if "run rnd events (initialPage s c v) = Some st1"
    using inv_one_poll [OF inv_run [OF inv_initialPage that]] .
  have periodic: "fetches ((fire rnd ^^ n) (startPolling st))
                = fetches st @ map (\<lambda>k. clock st + 2000 * k) [1 ..< Suc n]
            \<and> length (polling ((fire rnd ^^ n) (startPolling st))) = 1"
    if inv: "pollingInvariant st" and only: "list_all (\<lambda>t. callback t = PollTick) (timers st)"
      and act: "sessionActive st" for n
  proof -
    have t: "timers (startPolling st) = [?p]"
      using startPolling_timers(3) [OF inv only] .
    have "timers ((fire rnd ^^ n) (startPolling st)) = [?p\<lparr>due := due ?p + 2000 * n, fired := fired ?p + n\<rparr>]
       \<and> fetches ((fire rnd ^^ n) (startPolling st))
           = fetches (startPolling st) @ map (\<lambda>k. due ?p + 2000 * k) [0 ..< n]
       \<and> sessionActive ((fire rnd ^^ n) (startPolling st))
       \<and> clock ((fire rnd ^^ n) (startPolling st)) \<le> due ?p + 2000 * n"
      using t act by (intro poll_funpow) simp_all
    then show ?thesis
      by (simp add: polling_def map_upt_from_one del: upt_Suc)
  qed
  have idle: "timers (fire rnd (startPolling st)) = [] \<and> fetches (fire rnd (startPolling st)) = fetches st"
    if inv: "pollingInvariant st" and only: "list_all (\<lambda>t. callback t = PollTick) (timers st)"
      and l: "loaded st = StudyFlowV13" and act: "\<not> sessionActive st"
  proof -
    have t: "timers (startPolling st) = [?p]"
      using startPolling_timers(3) [OF inv only] .
    have h: "pollingIntervalId (startPolling st) = Some (timerId ?p)"
      using startPolling_timers(2) [OF inv] by simp
    have l1: "loaded (startPolling st) = StudyFlowV13"
      using l by (simp add: startPolling_def setInterval_def clearInterval_def Let_def
          split: option.splits)
    from idle_tick [OF t _ h l1, of rnd] act show ?thesis by simp
  qed
  show ?thesis
    using startPolling_timers(1,2) one periodic idle by blast
qed

theorem polling_single_interval_fixed_period_witness:
  "fetches ((fire (\<lambda>x. x) ^^ 3) (startPolling sessionReady)) = [2000, 4000, 6000]
   \<and> length (polling ((fire (\<lambda>x. x) ^^ 3) (startPolling sessionReady))) = 1
   \<and> pollingIntervalId (startPolling sessionReady) = Some 1
   \<and> length (polling firstAnswered) \<le> 1"
proof -
  have inv: "pollingInvariant sessionReady"
    by (simp add: sessionReady_def inv_initialPage)
  have only: "list_all (\<lambda>t. callback t = PollTick) (timers sessionReady)"
    and act: "sessionActive sessionReady"
    and f: "fetches sessionReady = []" and c: "clock sessionReady = 0"
    and n: "nextTimerId sessionReady = 1"
    by (simp_all add: sessionReady_def initialPage_def sessionActive_def)
  have upt: "map ((*) (2000::nat)) [Suc 0 ..< 4] = [2000, 4000, 6000]"
    by code_simp
  note instance_here = polling_single_interval_fixed_period
    [of sessionReady "\<lambda>x. x" overlappingPolls StudyFlowV13 allCards 1 firstAnswered]
  from instance_here inv only act
  have "fetches ((fire (\<lambda>x. x) ^^ 3) (startPolling sessionReady))
          = fetches sessionReady @ map (\<lambda>k. clock sessionReady + 2000 * k) [1 ..< Suc 3]
        \<and> length (polling ((fire (\<lambda>x. x) ^^ 3) (startPolling sessionReady))) = 1"
    by blast
  moreover from instance_here inv n have "pollingIntervalId (startPolling sessionReady) = Some 1"
    by simp
  moreover from instance_here overlap_reached have "length (polling firstAnswered) \<le> 1"
    by blast
  ultimately show ?thesis
    by (simp add: f c upt)
qed

end
